theory Spec2Isabelle
  imports Complex_Main
begin

section \<open>Values handled by the utility\<close>

text \<open>
  The utility \<^verbatim>\<open>bc_util.py\<close> works on NumPy double precision values. A value is either
  a finite number, one of the two infinities, or NaN. Finite values are embedded as
  reals: the comparisons the program makes on them are exact, so they agree with the
  order of the reals. The comparison operators follow IEEE 754: every comparison with
  NaN is false.
\<close>

datatype float64 = Fin real | PosInf | NegInf | NaN

fun np_less :: "float64 \<Rightarrow> float64 \<Rightarrow> bool" where
  "np_less (Fin a) (Fin b) = (a < b)"
| "np_less NaN _ = False"
| "np_less _ NaN = False"
| "np_less NegInf NegInf = False"
| "np_less NegInf _ = True"
| "np_less _ NegInf = False"
| "np_less PosInf _ = False"
| "np_less _ PosInf = True"

definition np_greater :: "float64 \<Rightarrow> float64 \<Rightarrow> bool" where
  "np_greater a b = np_less b a"

fun isfinite :: "float64 \<Rightarrow> bool" where
  "isfinite (Fin _) = True"
| "isfinite _ = False"

text \<open>
  \<^verbatim>\<open>np.asarray\<close> turns a Python number into a zero-dimensional array and a sequence
  into a one-dimensional array. Comparing an array with a number compares every element;
  \<^verbatim>\<open>np.any\<close> asks whether some element of the comparison is true.
\<close>

datatype ndarray = Scalar float64 | Array "float64 list"

fun elements :: "ndarray \<Rightarrow> float64 list" where
  "elements (Scalar v) = [v]"
| "elements (Array vs) = vs"

definition np_any_less :: "ndarray \<Rightarrow> float64 \<Rightarrow> bool" where
  "np_any_less arr m = list_ex (\<lambda>v. np_less v m) (elements arr)"

definition np_any_greater :: "ndarray \<Rightarrow> float64 \<Rightarrow> bool" where
  "np_any_greater arr m = list_ex (\<lambda>v. np_greater v m) (elements arr)"

text \<open>
  An interpolant returned by \<^verbatim>\<open>interp1d\<close> is called on an array and evaluates every
  element on its own; the result has the shape of the argument.
\<close>

fun call :: "(float64 \<Rightarrow> float64) \<Rightarrow> ndarray \<Rightarrow> ndarray" where
  "call f (Scalar v) = Scalar (f v)"
| "call f (Array vs) = Array (map f vs)"

section \<open>The reference table\<close>

text \<open>
  A row of the table has the four columns that \<^verbatim>\<open>load_bolometric_data\<close> names
  \<^verbatim>\<open>B_V\<close>, \<^verbatim>\<open>logT\<close>, \<^verbatim>\<open>BC\<close> and \<^verbatim>\<open>T\<close>. A data frame is the list of its rows in
  positional order.
\<close>

record Row =
  B_V :: real
  logT :: real
  BC :: real
  T :: real

type_synonym DataFrame = "Row list"

definition mk_row :: "real \<Rightarrow> real \<Rightarrow> real \<Rightarrow> real \<Rightarrow> Row" where
  "mk_row bv lt bc t = \<lparr>B_V = bv, logT = lt, BC = bc, T = t\<rparr>"

text \<open>The rows of the text embedded in \<^verbatim>\<open>load_bolometric_data\<close>, in the order of the text.\<close>

definition bolometric_data :: DataFrame where
  "bolometric_data =
[
  mk_row (- 0.35) (4.7538) (- 4.720) 56728,
  mk_row (- 0.34) (4.7031) (- 4.506) 50477,
  mk_row (- 0.33) (4.6551) (- 4.197) 45196,
  mk_row (- 0.32) (4.6098) (- 3.861) 40719,
  mk_row (- 0.31) (4.5670) (- 3.534) 36897,
  mk_row (- 0.30) (4.5266) (- 3.234) 33620,
  mk_row (- 0.29) (4.4884) (- 2.966) 30789,
  mk_row (- 0.28) (4.4523) (- 2.730) 28333,
  mk_row (- 0.27) (4.4183) (- 2.523) 26199,
  mk_row (- 0.26) (4.3863) (- 2.341) 24338,
  mk_row (- 0.25) (4.3561) (- 2.177) 22703,
  mk_row (- 0.24) (4.3276) (- 2.028) 21261,
  mk_row (- 0.23) (4.3008) (- 1.891) 19989,
  mk_row (- 0.22) (4.2755) (- 1.762) 18858,
  mk_row (- 0.21) (4.2517) (- 1.641) 17852,
  mk_row (- 0.20) (4.2294) (- 1.525) 16958,
  mk_row (- 0.19) (4.2083) (- 1.414) 16154,
  mk_row (- 0.18) (4.1885) (- 1.307) 15434,
  mk_row (- 0.17) (4.1699) (- 1.205) 14787,
  mk_row (- 0.16) (4.1524) (- 1.107) 14203,
  mk_row (- 0.15) (4.1360) (- 1.013) 13677,
  mk_row (- 0.14) (4.1205) (- 0.923) 13197,
  mk_row (- 0.13) (4.1060) (- 0.839) 12764,
  mk_row (- 0.12) (4.0923) (- 0.759) 12368,
  mk_row (- 0.11) (4.0795) (- 0.684) 12008,
  mk_row (- 0.10) (4.0674) (- 0.614) 11678,
  mk_row (- 0.09) (4.0560) (- 0.549) 11376,
  mk_row (- 0.08) (4.0453) (- 0.488) 11099,
  mk_row (- 0.07) (4.0353) (- 0.432) 10846,
  mk_row (- 0.06) (4.0258) (- 0.381) 10612,
  mk_row (- 0.05) (4.0169) (- 0.334) 10396,
  mk_row (- 0.04) (4.0084) (- 0.290) 10195,
  mk_row (- 0.03) (4.0005) (- 0.252) 10011,
  mk_row (- 0.02) (3.9930) (- 0.216) 9840,
  mk_row (- 0.01) (3.9859) (- 0.184) 9680,
  mk_row (0.00) (3.9791) (- 0.155) 9530,
  mk_row (0.01) (3.9728) (- 0.129) 9392,
  mk_row (0.02) (3.9667) (- 0.106) 9261,
  mk_row (0.03) (3.9609) (- 0.085) 9139,
  mk_row (0.04) (3.9555) (- 0.067) 9026,
  mk_row (0.05) (3.9502) (- 0.050) 8916,
  mk_row (0.06) (3.9452) (- 0.036) 8814,
  mk_row (0.07) (3.9404) (- 0.024) 8717,
  mk_row (0.08) (3.9358) (- 0.013) 8625,
  mk_row (0.09) (3.9314) (- 0.004) 8538,
  mk_row (0.10) (3.9271) (0.004) 8454,
  mk_row (0.11) (3.9229) (0.010) 8373,
  mk_row (0.12) (3.9189) (0.015) 8296,
  mk_row (0.13) (3.9150) (0.019) 8222,
  mk_row (0.14) (3.9113) (0.022) 8152,
  mk_row (0.15) (3.9076) (0.024) 8083,
  mk_row (0.16) (3.9040) (0.026) 8016,
  mk_row (0.17) (3.9004) (0.028) 7950,
  mk_row (0.18) (3.8969) (0.029) 7886,
  mk_row (0.19) (3.8935) (0.031) 7825,
  mk_row (0.20) (3.8902) (0.032) 7766,
  mk_row (0.21) (3.8869) (0.033) 7707,
  mk_row (0.22) (3.8836) (0.033) 7648,
  mk_row (0.23) (3.8804) (0.034) 7592,
  mk_row (0.24) (3.8771) (0.034) 7535,
  mk_row (0.25) (3.8740) (0.035) 7481,
  mk_row (0.26) (3.8708) (0.035) 7426,
  mk_row (0.27) (3.8676) (0.035) 7372,
  mk_row (0.28) (3.8645) (0.035) 7319,
  mk_row (0.29) (3.8614) (0.035) 7267,
  mk_row (0.30) (3.8583) (0.034) 7216,
  mk_row (0.31) (3.8552) (0.034) 7164,
  mk_row (0.32) (3.8521) (0.033) 7113,
  mk_row (0.33) (3.8490) (0.032) 7063,
  mk_row (0.34) (3.8460) (0.031) 7014,
  mk_row (0.35) (3.8429) (0.030) 6964,
  mk_row (0.36) (3.8399) (0.028) 6916,
  mk_row (0.37) (3.8368) (0.026) 6867,
  mk_row (0.38) (3.8338) (0.025) 6820,
  mk_row (0.39) (3.8307) (0.022) 6771,
  mk_row (0.40) (3.8277) (0.020) 6725,
  mk_row (0.41) (3.8247) (0.018) 6678,
  mk_row (0.42) (3.8217) (0.015) 6632,
  mk_row (0.43) (3.8187) (0.012) 6587,
  mk_row (0.44) (3.8157) (0.009) 6541,
  mk_row (0.45) (3.8127) (0.006) 6496,
  mk_row (0.46) (3.8098) (0.003) 6453,
  mk_row (0.47) (3.8068) (- 0.001) 6409,
  mk_row (0.48) (3.8039) (- 0.004) 6366,
  mk_row (0.49) (3.8010) (- 0.008) 6324,
  mk_row (0.50) (3.7981) (- 0.012) 6282,
  mk_row (0.51) (3.7952) (- 0.016) 6240,
  mk_row (0.52) (3.7923) (- 0.021) 6198,
  mk_row (0.53) (3.7895) (- 0.025) 6158,
  mk_row (0.54) (3.7866) (- 0.030) 6117,
  mk_row (0.55) (3.7838) (- 0.035) 6078,
  mk_row (0.56) (3.7811) (- 0.039) 6040,
  mk_row (0.57) (3.7783) (- 0.045) 6002,
  mk_row (0.58) (3.7756) (- 0.050) 5964,
  mk_row (0.59) (3.7729) (- 0.055) 5927,
  mk_row (0.60) (3.7702) (- 0.061) 5891,
  mk_row (0.61) (3.7676) (- 0.067) 5855,
  mk_row (0.62) (3.7649) (- 0.073) 5819,
  mk_row (0.63) (3.7623) (- 0.079) 5784,
  mk_row (0.64) (3.7598) (- 0.085) 5751,
  mk_row (0.65) (3.7572) (- 0.091) 5717,
  mk_row (0.66) (3.7547) (- 0.098) 5684,
  mk_row (0.67) (3.7523) (- 0.104) 5653,
  mk_row (0.68) (3.7498) (- 0.111) 5620,
  mk_row (0.69) (3.7474) (- 0.117) 5589,
  mk_row (0.70) (3.7450) (- 0.124) 5559,
  mk_row (0.71) (3.7426) (- 0.132) 5528,
  mk_row (0.72) (3.7403) (- 0.139) 5499,
  mk_row (0.73) (3.7380) (- 0.146) 5470,
  mk_row (0.74) (3.7358) (- 0.153) 5442,
  mk_row (0.75) (3.7335) (- 0.161) 5413,
  mk_row (0.76) (3.7313) (- 0.168) 5386,
  mk_row (0.77) (3.7291) (- 0.176) 5359,
  mk_row (0.78) (3.7270) (- 0.184) 5333,
  mk_row (0.79) (3.7249) (- 0.192) 5307,
  mk_row (0.80) (3.7228) (- 0.200) 5282,
  mk_row (0.81) (3.7207) (- 0.208) 5256,
  mk_row (0.82) (3.7186) (- 0.216) 5231,
  mk_row (0.83) (3.7166) (- 0.225) 5207,
  mk_row (0.84) (3.7146) (- 0.233) 5183,
  mk_row (0.85) (3.7126) (- 0.242) 5159,
  mk_row (0.86) (3.7107) (- 0.250) 5136,
  mk_row (0.87) (3.7088) (- 0.259) 5114,
  mk_row (0.88) (3.7068) (- 0.268) 5090,
  mk_row (0.89) (3.7049) (- 0.277) 5068,
  mk_row (0.90) (3.7031) (- 0.285) 5047,
  mk_row (0.91) (3.7012) (- 0.295) 5025,
  mk_row (0.92) (3.6994) (- 0.304) 5004,
  mk_row (0.93) (3.6976) (- 0.313) 4984,
  mk_row (0.94) (3.6958) (- 0.322) 4963,
  mk_row (0.95) (3.6940) (- 0.332) 4943,
  mk_row (0.96) (3.6922) (- 0.342) 4922,
  mk_row (0.97) (3.6904) (- 0.352) 4902,
  mk_row (0.98) (3.6887) (- 0.361) 4883,
  mk_row (0.99) (3.6869) (- 0.372) 4862,
  mk_row (1.00) (3.6852) (- 0.382) 4843,
  mk_row (1.01) (3.6835) (- 0.392) 4825,
  mk_row (1.02) (3.6818) (- 0.403) 4806,
  mk_row (1.03) (3.6800) (- 0.414) 4786,
  mk_row (1.04) (3.6783) (- 0.426) 4767,
  mk_row (1.05) (3.6766) (- 0.437) 4748,
  mk_row (1.06) (3.6750) (- 0.448) 4731,
  mk_row (1.07) (3.6733) (- 0.459) 4713,
  mk_row (1.08) (3.6716) (- 0.471) 4694,
  mk_row (1.09) (3.6699) (- 0.482) 4676,
  mk_row (1.10) (3.6682) (- 0.494) 4658,
  mk_row (1.11) (3.6666) (- 0.505) 4640,
  mk_row (1.12) (3.6649) (- 0.517) 4622,
  mk_row (1.13) (3.6633) (- 0.528) 4605,
  mk_row (1.14) (3.6616) (- 0.540) 4587,
  mk_row (1.15) (3.6599) (- 0.552) 4569,
  mk_row (1.16) (3.6583) (- 0.564) 4553,
  mk_row (1.17) (3.6566) (- 0.576) 4535,
  mk_row (1.18) (3.6550) (- 0.588) 4518,
  mk_row (1.19) (3.6533) (- 0.601) 4500,
  mk_row (1.20) (3.6516) (- 0.614) 4483,
  mk_row (1.21) (3.6500) (- 0.626) 4466,
  mk_row (1.22) (3.6483) (- 0.640) 4449,
  mk_row (1.23) (3.6467) (- 0.652) 4433,
  mk_row (1.24) (3.6450) (- 0.666) 4415,
  mk_row (1.25) (3.6434) (- 0.679) 4399,
  mk_row (1.26) (3.6417) (- 0.694) 4382,
  mk_row (1.27) (3.6401) (- 0.707) 4366,
  mk_row (1.28) (3.6384) (- 0.722) 4349,
  mk_row (1.29) (3.6368) (- 0.736) 4333,
  mk_row (1.30) (3.6351) (- 0.752) 4316,
  mk_row (1.31) (3.6335) (- 0.766) 4300,
  mk_row (1.32) (3.6318) (- 0.782) 4283,
  mk_row (1.33) (3.6301) (- 0.798) 4266,
  mk_row (1.34) (3.6285) (- 0.814) 4251,
  mk_row (1.35) (3.6268) (- 0.831) 4234,
  mk_row (1.36) (3.6251) (- 0.848) 4217,
  mk_row (1.37) (3.6235) (- 0.865) 4202,
  mk_row (1.38) (3.6218) (- 0.883) 4186,
  mk_row (1.39) (3.6201) (- 0.901) 4169,
  mk_row (1.40) (3.6184) (- 0.920) 4153,
  mk_row (1.41) (3.6167) (- 0.939) 4137,
  mk_row (1.42) (3.6149) (- 0.960) 4120,
  mk_row (1.43) (3.6132) (- 0.980) 4103,
  mk_row (1.44) (3.6114) (- 1.002) 4086,
  mk_row (1.45) (3.6096) (- 1.024) 4070,
  mk_row (1.46) (3.6078) (- 1.047) 4053,
  mk_row (1.47) (3.6060) (- 1.071) 4036,
  mk_row (1.48) (3.6041) (- 1.096) 4018,
  mk_row (1.49) (3.6022) (- 1.122) 4001,
  mk_row (1.50) (3.6002) (- 1.150) 3982,
  mk_row (1.51) (3.5982) (- 1.178) 3964,
  mk_row (1.52) (3.5961) (- 1.209) 3945,
  mk_row (1.53) (3.5940) (- 1.241) 3926,
  mk_row (1.54) (3.5918) (- 1.276) 3906,
  mk_row (1.55) (3.5895) (- 1.312) 3885,
  mk_row (1.56) (3.5872) (- 1.350) 3865,
  mk_row (1.57) (3.5847) (- 1.393) 3843,
  mk_row (1.58) (3.5822) (- 1.437) 3821,
  mk_row (1.59) (3.5795) (- 1.486) 3797,
  mk_row (1.60) (3.5767) (- 1.539) 3773,
  mk_row (1.61) (3.5738) (- 1.595) 3748,
  mk_row (1.62) (3.5707) (- 1.658) 3721,
  mk_row (1.63) (3.5674) (- 1.728) 3693,
  mk_row (1.64) (3.5640) (- 1.802) 3664,
  mk_row (1.65) (3.5604) (- 1.885) 3634,
  mk_row (1.66) (3.5565) (- 1.978) 3601,
  mk_row (1.67) (3.5525) (- 2.078) 3568,
  mk_row (1.68) (3.5482) (- 2.191) 3533,
  mk_row (1.69) (3.5436) (- 2.318) 3496,
  mk_row (1.70) (3.5387) (- 2.460) 3457,
  mk_row (1.71) (3.5335) (- 2.620) 3415,
  mk_row (1.72) (3.5279) (- 2.803) 3372,
  mk_row (1.73) (3.5220) (- 3.007) 3326,
  mk_row (1.74) (3.5157) (- 3.239) 3278,
  mk_row (1.75) (3.5090) (- 3.502) 3228,
  mk_row (1.76) (3.5018) (- 3.805) 3175,
  mk_row (1.77) (3.4941) (- 4.152) 3119,
  mk_row (1.78) (3.4860) (- 4.544) 3061,
  mk_row (1.79) (3.4772) (- 5.004) 3000,
  mk_row (1.80) (3.4678) (- 5.535) 2936
]"

section \<open>Objects and the store\<close>

text \<open>
  Data frames are objects: the constructor receives a reference to the caller's frame.
  The store is the list of the frames allocated so far and a reference is a position in
  it. \<^verbatim>\<open>DataFrame.copy\<close> and \<^verbatim>\<open>DataFrame.sort_values\<close> (called without
  \<^verbatim>\<open>inplace\<close>) each allocate a new frame and leave their argument as it is.

  \<^verbatim>\<open>sort_values('T')\<close> orders the rows by ascending \<^verbatim>\<open>T\<close>. Rows with equal keys are
  kept in their order here; pandas does not promise an order for them. The embedded
  table has no equal keys.
\<close>

type_synonym addr = nat
type_synonym heap = "DataFrame list"

definition copy :: "heap \<Rightarrow> addr \<Rightarrow> heap \<times> addr" where
  "copy h a = (h @ [h ! a], length h)"

definition sort_values_T :: "heap \<Rightarrow> addr \<Rightarrow> heap \<times> addr" where
  "sort_values_T h a = (h @ [sort_key T (h ! a)], length h)"

definition load_bolometric_data :: "heap \<Rightarrow> heap \<times> addr" where
  "load_bolometric_data h = (h @ [bolometric_data], length h)"

text \<open>\<^verbatim>\<open>Series.min\<close> and \<^verbatim>\<open>Series.max\<close>; on a column without rows pandas returns NaN.\<close>

fun series_min :: "real list \<Rightarrow> float64" where
  "series_min [] = NaN"
| "series_min (x # xs) = Fin (fold min xs x)"

fun series_max :: "real list \<Rightarrow> float64" where
  "series_max [] = NaN"
| "series_max (x # xs) = Fin (fold max xs x)"

section \<open>The class BolometricCorrection\<close>

text \<open>
  The exceptions. \<^verbatim>\<open>SciPy_error\<close> stands for an exception raised inside SciPy's
  \<^verbatim>\<open>interp1d\<close> (a \<^verbatim>\<open>ValueError\<close> when it is given fewer points than a cubic needs
  or a repeated abscissa). The other three are the error names of the specification;
  the program defines none of them and no function below returns them.
\<close>

datatype error = SciPy_error | MalformedDataError | InsufficientDataError | InvalidQueryError

record BolometricCorrection =
  data :: addr
  bc_from_T :: "float64 \<Rightarrow> float64"
  bc_from_logT :: "float64 \<Rightarrow> float64"
  bc_from_BV :: "float64 \<Rightarrow> float64"
  T_min :: float64
  T_max :: float64
  logT_min :: float64
  logT_max :: float64
  BV_min :: float64
  BV_max :: float64

text \<open>
  The constructor. \<^verbatim>\<open>interp1d\<close> belongs to SciPy, not to the program, and is a parameter
  here: it receives the abscissae and the ordinates and either raises or returns the
  interpolant. An exception of \<^verbatim>\<open>interp1d\<close> leaves the constructor at once; the frames
  allocated until then stay in the store.
\<close>

type_synonym interpolator = "real list \<Rightarrow> real list \<Rightarrow> error + (float64 \<Rightarrow> float64)"

definition BolometricCorrection_init ::
  "interpolator \<Rightarrow> heap \<Rightarrow> addr \<Rightarrow> heap \<times> (error + BolometricCorrection)" where
  "BolometricCorrection_init interp1d h a =
     (let (h1, c) = copy h a;
          (h2, s) = sort_values_T h1 c;
          df = h2 ! s
      in (h2,
          case interp1d (map T df) (map BC df) of
            Inl e \<Rightarrow> Inl e
          | Inr fT \<Rightarrow>
              (case interp1d (map logT df) (map BC df) of
                 Inl e \<Rightarrow> Inl e
               | Inr fL \<Rightarrow>
                   (case interp1d (map B_V df) (map BC df) of
                      Inl e \<Rightarrow> Inl e
                    | Inr fB \<Rightarrow>
                        Inr \<lparr>data = s,
                             bc_from_T = fT, bc_from_logT = fL, bc_from_BV = fB,
                             T_min = series_min (map T df), T_max = series_max (map T df),
                             logT_min = series_min (map logT df),
                             logT_max = series_max (map logT df),
                             BV_min = series_min (map B_V df),
                             BV_max = series_max (map B_V df)\<rparr>))))"

text \<open>
  The three queries. Each prints two lines when \<^verbatim>\<open>verbose\<close> is set and some element of
  the argument lies below the minimum or above the maximum of its axis, and returns the
  interpolant's values in either case. What a call leaves behind is written out: the
  store, the object itself, the lines printed and the value returned.
\<close>

datatype message =
    Warning_Temperature float64 float64
  | Warning_logT float64 float64
  | Warning_BV float64 float64
  | Extrapolation_will_be_used

record outcome =
  heap_after :: heap
  self_after :: BolometricCorrection
  stdout :: "message list"
  returned :: ndarray

definition get_BC_from_T :: "heap \<Rightarrow> BolometricCorrection \<Rightarrow> ndarray \<Rightarrow> bool \<Rightarrow> outcome" where
  "get_BC_from_T h self temperature verbose =
     \<lparr>heap_after = h, self_after = self,
      stdout =
        (if verbose \<and> (np_any_less temperature (T_min self) \<or>
                        np_any_greater temperature (T_max self))
         then [Warning_Temperature (T_min self) (T_max self), Extrapolation_will_be_used]
         else []),
      returned = call (bc_from_T self) temperature\<rparr>"

definition get_BC_from_logT :: "heap \<Rightarrow> BolometricCorrection \<Rightarrow> ndarray \<Rightarrow> bool \<Rightarrow> outcome" where
  "get_BC_from_logT h self log_temperature verbose =
     \<lparr>heap_after = h, self_after = self,
      stdout =
        (if verbose \<and> (np_any_less log_temperature (logT_min self) \<or>
                        np_any_greater log_temperature (logT_max self))
         then [Warning_logT (logT_min self) (logT_max self), Extrapolation_will_be_used]
         else []),
      returned = call (bc_from_logT self) log_temperature\<rparr>"

definition get_BC_from_BV :: "heap \<Rightarrow> BolometricCorrection \<Rightarrow> ndarray \<Rightarrow> bool \<Rightarrow> outcome" where
  "get_BC_from_BV h self b_v_color verbose =
     \<lparr>heap_after = h, self_after = self,
      stdout =
        (if verbose \<and> (np_any_less b_v_color (BV_min self) \<or>
                        np_any_greater b_v_color (BV_max self))
         then [Warning_BV (BV_min self) (BV_max self), Extrapolation_will_be_used]
         else []),
      returned = call (bc_from_BV self) b_v_color\<rparr>"

text \<open>
  A caller reads the range classification of a query off the output: the query was
  classified as an extrapolation when the warning was printed.
\<close>

definition extrapolated :: "outcome \<Rightarrow> bool" where
  "extrapolated r = (stdout r \<noteq> [])"

section \<open>The interpolation routine of SciPy\<close>

text \<open>
  The program builds its interpolants with
  \<^verbatim>\<open>interp1d(x, y, kind='cubic', bounds_error=False, fill_value='extrapolate')\<close>.
  For this kind SciPy sorts the points by abscissa, refuses fewer than four points and
  repeated abscissae, and interpolates with the cubic spline of
  \<^verbatim>\<open>make_interp_spline\<close> in its default setting: the spline with the not-a-knot end
  condition. Outside the data the outermost cubic is continued. SciPy works in double
  precision; the model below is the same spline in exact arithmetic, written with the
  second derivatives at the data points, which a tridiagonal system determines.

  A point of the spline carries its abscissa, its ordinate and the second derivative
  there. An equation of the system carries the coefficients below, on and above the
  diagonal and the right-hand side.
\<close>

type_synonym knot = "real \<times> real \<times> real"
type_synonym eqn = "real \<times> real \<times> real \<times> real"

text \<open>One equation for every inner point: the first derivative is continuous there.\<close>

fun interior_eqns :: "(real \<times> real) list \<Rightarrow> eqn list" where
  "interior_eqns ((x0, y0) # (x1, y1) # (x2, y2) # ps) =
     (x1 - x0, 2 * (x2 - x0), x2 - x1,
      6 * ((y2 - y1) / (x2 - x1) - (y1 - y0) / (x1 - x0)))
     # interior_eqns ((x1, y1) # (x2, y2) # ps)"
| "interior_eqns _ = []"

text \<open>
  The not-a-knot condition makes the third derivative continuous at the second and at
  the last but one point. It gives the second derivative at either end from its two
  neighbours, which removes the end from the first and from the last equation.
\<close>

fun left_end :: "eqn \<Rightarrow> eqn" where
  "left_end (a, b, c, r) = (0, b + a * (a + c) / c, c - a * a / c, r)"

fun right_end :: "eqn \<Rightarrow> eqn" where
  "right_end (a, b, c, r) = (a - c * c / a, b + c * (a + c) / a, 0, r)"

fun close_right :: "eqn list \<Rightarrow> eqn list" where
  "close_right [] = []"
| "close_right [e] = [right_end e]"
| "close_right (e # e' # es) = e # close_right (e' # es)"

fun not_a_knot :: "eqn list \<Rightarrow> eqn list" where
  "not_a_knot [] = []"
| "not_a_knot (e # es) = left_end e # close_right es"

text \<open>
  Elimination along the diagonal. The arguments \<open>cp\<close> and \<open>dp\<close> are the eliminated
  coefficient and right-hand side of the equation before; the solution of the rest is
  substituted back on return.
\<close>

fun thomas :: "eqn list \<Rightarrow> real \<Rightarrow> real \<Rightarrow> real list" where
  "thomas [] cp dp = []"
| "thomas ((a, b, c, r) # es) cp dp =
     (let den = b - a * cp;
          c' = c / den;
          d' = (r - a * dp) / den;
          ms = thomas es c' d'
      in (d' - c' * (case ms of [] \<Rightarrow> 0 | m # _ \<Rightarrow> m)) # ms)"

fun end_moment :: "(real \<times> real) list \<Rightarrow> real list \<Rightarrow> real" where
  "end_moment ((x0, _) # (x1, _) # (x2, _) # _) (m1 # m2 # _) =
     ((x2 - x0) * m1 - (x1 - x0) * m2) / (x2 - x1)"
| "end_moment _ _ = 0"

definition moments :: "(real \<times> real) list \<Rightarrow> real list" where
  "moments ps =
     (let ms = thomas (not_a_knot (interior_eqns ps)) 0 0
      in end_moment ps ms # ms @ [end_moment (rev ps) (rev ms)])"

definition spline_knots :: "(real \<times> real) list \<Rightarrow> knot list" where
  "spline_knots ps = map2 (\<lambda>(x, y) m. (x, y, m)) ps (moments ps)"

text \<open>The cubic between two neighbouring points, and the spline made of these cubics.\<close>

fun piece :: "knot \<Rightarrow> knot \<Rightarrow> real \<Rightarrow> real" where
  "piece (x0, y0, m0) (x1, y1, m1) x =
     m0 * (x1 - x) ^ 3 / (6 * (x1 - x0)) + m1 * (x - x0) ^ 3 / (6 * (x1 - x0))
     + (y0 / (x1 - x0) - m0 * (x1 - x0) / 6) * (x1 - x)
     + (y1 / (x1 - x0) - m1 * (x1 - x0) / 6) * (x - x0)"

fun evaluate :: "knot list \<Rightarrow> real \<Rightarrow> real" where
  "evaluate [p0, p1] x = piece p0 p1 x"
| "evaluate (p0 # p1 # p2 # ps) x =
     (if x \<le> fst p1 then piece p0 p1 x else evaluate (p1 # p2 # ps) x)"
| "evaluate _ x = 0"

text \<open>
  A query for NaN is answered with NaN. For an infinite query the arithmetic of SciPy
  leaves the finite numbers (it yields NaN or an infinity); the model takes NaN for it, and
  nothing below depends on more than that the answer is not finite.

  For a finite query the model gives the value of the spline in exact arithmetic. SciPy
  evaluates the same spline in double precision: its result agrees with the exact value
  up to rounding, which is small at and near the table and grows with the distance from
  it, and for queries of a very large magnitude (of the order of \<open>10 ^ 100\<close>) the
  double-precision evaluation overflows and the result is NaN. The model has neither
  rounding nor overflow, and what is stated below about the values returned is stated for
  queries at the tabulated points or near the table.
\<close>

definition interpolant :: "(real \<times> real) list \<Rightarrow> float64 \<Rightarrow> float64" where
  "interpolant ps v =
     (case v of Fin x \<Rightarrow> Fin (evaluate (spline_knots ps) x) | _ \<Rightarrow> NaN)"

definition scipy_interp1d :: interpolator where
  "scipy_interp1d x y =
     (if length x \<noteq> length y \<or> length x < 4 \<or> \<not> distinct x then Inl SciPy_error
      else Inr (interpolant (sort_key fst (zip x y))))"

text \<open>The program as \<^verbatim>\<open>main\<close> starts it: load the table, then construct the object.\<close>

definition main_heap :: heap where
  "main_heap = fst (load_bolometric_data [])"

definition main_data :: addr where
  "main_data = snd (load_bolometric_data [])"

definition startup :: "heap \<times> (error + BolometricCorrection)" where
  "startup = BolometricCorrection_init scipy_interp1d main_heap main_data"

definition bc_util :: BolometricCorrection where
  "bc_util = projr (snd startup)"

section \<open>Notions for the analysis of the spline\<close>







section \<open>Notions for the comparison of the columns logT and T\<close>

text \<open>
  Rational bounds for the powers of ten: for the digit \<open>d\<close>, the entry \<open>d\<close> of the row \<open>j\<close>
  of \<open>pow10_lower\<close> lies below ten to the power \<open>d / 10 ^ (j + 1)\<close> and that of
  \<open>pow10_upper\<close> above it; and \<open>pow10_below k\<close> and \<open>pow10_above k\<close> enclose ten to the
  power \<open>k / 10000\<close>. They serve to compare the columns \<^verbatim>\<open>logT\<close> and \<^verbatim>\<open>T\<close> of the table; the
  program does not compute them.
\<close>

definition pow10_lower :: "real list list" where
  "pow10_lower =
     [[1.000000, 1.258925, 1.584893, 1.995262, 2.511886, 3.162277, 3.981071, 5.011872, 6.309573, 7.943282],
      [1.000000, 1.023292, 1.047128, 1.071519, 1.096478, 1.122018, 1.148153, 1.174897, 1.202264, 1.230268],
      [1.000000, 1.002305, 1.004615, 1.006931, 1.009252, 1.011579, 1.013911, 1.016248, 1.018591, 1.020939],
      [1.000000, 1.000230, 1.000460, 1.000690, 1.000921, 1.001151, 1.001382, 1.001613, 1.001843, 1.002074]]"

definition pow10_upper :: "real list list" where
  "pow10_upper =
     [[1.000000, 1.258926, 1.584894, 1.995263, 2.511887, 3.162278, 3.981072, 5.011873, 6.309574, 7.943283],
      [1.000000, 1.023294, 1.047129, 1.071520, 1.096479, 1.122019, 1.148154, 1.174898, 1.202265, 1.230269],
      [1.000000, 1.002306, 1.004616, 1.006932, 1.009253, 1.011580, 1.013912, 1.016249, 1.018592, 1.020940],
      [1.000000, 1.000231, 1.000461, 1.000692, 1.000922, 1.001153, 1.001383, 1.001614, 1.001844, 1.002075]]"

definition pow10_below :: "nat \<Rightarrow> real" where
  "pow10_below k =
     10 ^ (k div 10000)
     * (pow10_lower ! 0 ! (k div 1000 mod 10)) * (pow10_lower ! 1 ! (k div 100 mod 10))
     * (pow10_lower ! 2 ! (k div 10 mod 10)) * (pow10_lower ! 3 ! (k mod 10))"

definition pow10_above :: "nat \<Rightarrow> real" where
  "pow10_above k =
     10 ^ (k div 10000)
     * (pow10_upper ! 0 ! (k div 1000 mod 10)) * (pow10_upper ! 1 ! (k div 100 mod 10))
     * (pow10_upper ! 2 ! (k div 10 mod 10)) * (pow10_upper ! 3 ! (k mod 10))"

section \<open>Columns, sorting and bounds\<close>

lemma series_min_Min: "xs \<noteq> [] \<Longrightarrow> series_min xs = Fin (Min (set xs))"
proof (cases xs)
  case (Cons x ys)
  then show ?thesis using Min.set_eq_fold [of x ys] by simp
qed simp

lemma series_max_Max: "xs \<noteq> [] \<Longrightarrow> series_max xs = Fin (Max (set xs))"
proof (cases xs)
  case (Cons x ys)
  then show ?thesis using Max.set_eq_fold [of x ys] by simp
qed simp

lemma column_min_sorted:
  "df \<noteq> [] \<Longrightarrow> series_min (map f (sort_key g df)) = Fin (Min (f ` set df))"
proof -
  assume "df \<noteq> []"
  then have "length (map f (sort_key g df)) \<noteq> 0" by simp
  then have "map f (sort_key g df) \<noteq> []" by (simp only: length_0_conv not_False_eq_True)
  then show ?thesis by (simp add: series_min_Min)
qed

lemma column_max_sorted:
  "df \<noteq> [] \<Longrightarrow> series_max (map f (sort_key g df)) = Fin (Max (f ` set df))"
proof -
  assume "df \<noteq> []"
  then have "length (map f (sort_key g df)) \<noteq> 0" by simp
  then have "map f (sort_key g df) \<noteq> []" by (simp only: length_0_conv not_False_eq_True)
  then show ?thesis by (simp add: series_max_Max)
qed

lemma insort_key_above:
  "\<forall>y\<in>set ys. f y < f x \<Longrightarrow> insort_key f x ys = ys @ [x]"
  for f :: "'a \<Rightarrow> real"
  by (induction ys) auto

lemma sort_key_descending:
  "sorted_wrt (\<lambda>r s. f s < f r) xs \<Longrightarrow> sort_key f xs = rev xs"
  for f :: "'a \<Rightarrow> real"
  by (induction xs) (auto simp: insort_key_above)

lemma sorted_wrt_if_successively:
  "successively (\<lambda>r s. f s < f r) xs \<Longrightarrow> sorted_wrt (\<lambda>r s. f s < f r) xs"
  for f :: "'a \<Rightarrow> real"
  by (subst successively_conv_sorted_wrt [symmetric]) (auto intro!: transpI)

lemma sorted_wrt_if_successively_up:
  "successively (\<lambda>r s. f r < f s) xs \<Longrightarrow> sorted_wrt (\<lambda>r s. f r < f s) xs"
  for f :: "'a \<Rightarrow> real"
  by (subst successively_conv_sorted_wrt [symmetric]) (auto intro!: transpI)

section \<open>The constructor\<close>

lemma init_heap:
  "fst (BolometricCorrection_init interp1d h a) = h @ [h ! a, sort_key T (h ! a)]"
  by (simp add: BolometricCorrection_init_def copy_def sort_values_T_def nth_append Let_def)

lemma init_Inr:
  assumes "snd (BolometricCorrection_init interp1d h a) = Inr self"
  shows "data self = Suc (length h)"
    and "interp1d (map T (sort_key T (h ! a))) (map BC (sort_key T (h ! a))) = Inr (bc_from_T self)"
    and "interp1d (map logT (sort_key T (h ! a))) (map BC (sort_key T (h ! a))) = Inr (bc_from_logT self)"
    and "interp1d (map B_V (sort_key T (h ! a))) (map BC (sort_key T (h ! a))) = Inr (bc_from_BV self)"
    and "T_min self = series_min (map T (sort_key T (h ! a)))"
    and "T_max self = series_max (map T (sort_key T (h ! a)))"
    and "logT_min self = series_min (map logT (sort_key T (h ! a)))"
    and "logT_max self = series_max (map logT (sort_key T (h ! a)))"
    and "BV_min self = series_min (map B_V (sort_key T (h ! a)))"
    and "BV_max self = series_max (map B_V (sort_key T (h ! a)))"
  using assms
  by (auto simp: BolometricCorrection_init_def copy_def sort_values_T_def nth_append Let_def
      split: sum.splits)

lemma init_Inl:
  assumes "interp1d (map T (sort_key T (h ! a))) (map BC (sort_key T (h ! a))) = Inl e"
  shows "snd (BolometricCorrection_init interp1d h a) = Inl e"
  using assms
  by (simp add: BolometricCorrection_init_def copy_def sort_values_T_def nth_append Let_def)

section \<open>The queries\<close>

lemma extrapolated_T_scalar:
  "extrapolated (get_BC_from_T h self (Scalar v) verbose)
     = (verbose \<and> (np_less v (T_min self) \<or> np_less (T_max self) v))"
  by (simp add: extrapolated_def get_BC_from_T_def np_any_less_def np_any_greater_def
      np_greater_def)

lemma extrapolated_logT_scalar:
  "extrapolated (get_BC_from_logT h self (Scalar v) verbose)
     = (verbose \<and> (np_less v (logT_min self) \<or> np_less (logT_max self) v))"
  by (simp add: extrapolated_def get_BC_from_logT_def np_any_less_def np_any_greater_def
      np_greater_def)

lemma extrapolated_BV_scalar:
  "extrapolated (get_BC_from_BV h self (Scalar v) verbose)
     = (verbose \<and> (np_less v (BV_min self) \<or> np_less (BV_max self) v))"
  by (simp add: extrapolated_def get_BC_from_BV_def np_any_less_def np_any_greater_def
      np_greater_def)

lemma extrapolated_T_array:
  "extrapolated (get_BC_from_T h self (Array vs) verbose)
     = (verbose \<and> (\<exists>v\<in>set vs. np_less v (T_min self) \<or> np_less (T_max self) v))"
  by (auto simp: extrapolated_def get_BC_from_T_def np_any_less_def np_any_greater_def
      np_greater_def list_ex_iff)

lemma extrapolated_logT_array:
  "extrapolated (get_BC_from_logT h self (Array vs) verbose)
     = (verbose \<and> (\<exists>v\<in>set vs. np_less v (logT_min self) \<or> np_less (logT_max self) v))"
  by (auto simp: extrapolated_def get_BC_from_logT_def np_any_less_def np_any_greater_def
      np_greater_def list_ex_iff)

lemma extrapolated_BV_array:
  "extrapolated (get_BC_from_BV h self (Array vs) verbose)
     = (verbose \<and> (\<exists>v\<in>set vs. np_less v (BV_min self) \<or> np_less (BV_max self) v))"
  by (auto simp: extrapolated_def get_BC_from_BV_def np_any_less_def np_any_greater_def
      np_greater_def list_ex_iff)

lemma returned_simps:
  "returned (get_BC_from_T h self x verbose) = call (bc_from_T self) x"
  "returned (get_BC_from_logT h self x verbose) = call (bc_from_logT self) x"
  "returned (get_BC_from_BV h self x verbose) = call (bc_from_BV self) x"
  by (simp_all add: get_BC_from_T_def get_BC_from_logT_def get_BC_from_BV_def)

lemma frame_simps:
  "heap_after (get_BC_from_T h self x verbose) = h"
  "self_after (get_BC_from_T h self x verbose) = self"
  "heap_after (get_BC_from_logT h self x verbose) = h"
  "self_after (get_BC_from_logT h self x verbose) = self"
  "heap_after (get_BC_from_BV h self x verbose) = h"
  "self_after (get_BC_from_BV h self x verbose) = self"
  by (simp_all add: get_BC_from_T_def get_BC_from_logT_def get_BC_from_BV_def)

section \<open>The embedded table\<close>

lemma length_table: "length bolometric_data = 216"
  unfolding bolometric_data_def by simp

lemma table_T_successively: "successively (\<lambda>r s. T s < T r) bolometric_data"
  unfolding bolometric_data_def mk_row_def by simp

lemma table_logT_successively: "successively (\<lambda>r s. logT s < logT r) bolometric_data"
  unfolding bolometric_data_def mk_row_def by simp

lemma table_B_V_successively: "successively (\<lambda>r s. B_V r < B_V s) bolometric_data"
  unfolding bolometric_data_def mk_row_def by simp

lemma table_sorted: "sort_key T bolometric_data = rev bolometric_data"
  by (intro sort_key_descending sorted_wrt_if_successively table_T_successively)

lemma main_frame: "main_heap ! main_data = bolometric_data"
  by (simp add: main_heap_def main_data_def load_bolometric_data_def)

lemma table_distinct:
  "distinct (map T (rev bolometric_data))"
  "distinct (map logT (rev bolometric_data))"
  "distinct (map B_V (rev bolometric_data))"
proof -
  have "sorted_wrt (\<lambda>r s. T s < T r) bolometric_data"
    by (intro sorted_wrt_if_successively table_T_successively)
  then have "sorted_wrt (<) (map T (rev bolometric_data))"
    by (simp add: sorted_wrt_map sorted_wrt_rev)
  then show "distinct (map T (rev bolometric_data))"
    using strict_sorted_iff by blast
  have "sorted_wrt (\<lambda>r s. logT s < logT r) bolometric_data"
    by (intro sorted_wrt_if_successively table_logT_successively)
  then have "sorted_wrt (<) (map logT (rev bolometric_data))"
    by (simp add: sorted_wrt_map sorted_wrt_rev)
  then show "distinct (map logT (rev bolometric_data))"
    using strict_sorted_iff by blast
  have "sorted_wrt (\<lambda>r s. B_V r < B_V s) bolometric_data"
    by (intro sorted_wrt_if_successively_up table_B_V_successively)
  then have "sorted_wrt (<) (map B_V bolometric_data)"
    by (simp add: sorted_wrt_map)
  then have "distinct (map B_V bolometric_data)"
    using strict_sorted_iff by blast
  then show "distinct (map B_V (rev bolometric_data))"
    by (simp add: rev_map [symmetric])
qed

lemma startup_ok: "snd startup = Inr bc_util"
proof -
  have "\<exists>self. snd startup = Inr self"
    unfolding startup_def BolometricCorrection_init_def copy_def sort_values_T_def
    by (simp add: nth_append main_frame table_sorted scipy_interp1d_def table_distinct
        length_table Let_def)
  then show ?thesis
    by (auto simp: bc_util_def)
qed

lemma Min_image_eqI:
  "list_all (\<lambda>r. m \<le> f r) xs \<Longrightarrow> list_ex (\<lambda>r. f r = m) xs \<Longrightarrow> Min (f ` set xs) = m"
  for f :: "'a \<Rightarrow> real"
  by (intro Min_eqI) (auto simp: list_all_iff list_ex_iff)

lemma Max_image_eqI:
  "list_all (\<lambda>r. f r \<le> m) xs \<Longrightarrow> list_ex (\<lambda>r. f r = m) xs \<Longrightarrow> Max (f ` set xs) = m"
  for f :: "'a \<Rightarrow> real"
  by (intro Max_eqI) (auto simp: list_all_iff list_ex_iff)

lemma table_bounds:
  "Min (T ` set bolometric_data) = 2936" "Max (T ` set bolometric_data) = 56728"
  "Min (logT ` set bolometric_data) = 3.4678" "Max (logT ` set bolometric_data) = 4.7538"
  "Min (B_V ` set bolometric_data) = - 0.35" "Max (B_V ` set bolometric_data) = 1.80"
  by (intro Min_image_eqI Max_image_eqI; simp add: bolometric_data_def mk_row_def)+

lemma table_nonempty: "bolometric_data \<noteq> []"
  using length_table by auto

lemma bc_util_bounds:
  "T_min bc_util = Fin 2936" "T_max bc_util = Fin 56728"
  "logT_min bc_util = Fin 3.4678" "logT_max bc_util = Fin 4.7538"
  "BV_min bc_util = Fin (- 0.35)" "BV_max bc_util = Fin 1.80"
  using init_Inr [OF startup_ok [unfolded startup_def]]
  by (simp_all only: main_frame column_min_sorted [OF table_nonempty]
      column_max_sorted [OF table_nonempty] table_bounds)

section \<open>More facts about the queries, SciPy and the table\<close>

lemma np_less_Fin [simp]: "np_less (Fin a) (Fin b) = (a < b)" by simp

lemma scipy_nonfinite:
  "scipy_interp1d xs ys = Inr f \<Longrightarrow> \<not> isfinite v \<Longrightarrow> f v = NaN"
  by (cases v) (auto simp: scipy_interp1d_def interpolant_def split: if_splits)

lemma scipy_short:
  "length xs < 4 \<Longrightarrow> scipy_interp1d xs ys = Inl SciPy_error"
  by (simp add: scipy_interp1d_def)

lemma np_less_NaN: "np_less v NaN = False" "np_less NaN v = False"
  by (cases v; simp)+

lemma call_elements:
  "elements (call f (Array vs)) = map f vs" "call f (Scalar v) = Scalar (f v)"
  by simp_all

lemma bc_util_nonfinite:
  "\<not> isfinite v \<Longrightarrow> bc_from_T bc_util v = NaN"
  using init_Inr(2) [OF startup_ok [unfolded startup_def]] scipy_nonfinite by blast

lemma table_row_6: "bolometric_data ! 6 = mk_row (- 0.29) 4.4884 (- 2.966) 30789"
  unfolding bolometric_data_def by simp

lemma table_rows_0_1:
  "bolometric_data ! 0 = mk_row (- 0.35) 4.7538 (- 4.720) 56728"
  "bolometric_data ! Suc 0 = mk_row (- 0.34) 4.7031 (- 4.506) 50477"
  unfolding bolometric_data_def by simp_all

lemma table_T_descending: "sorted_wrt (>) (map T bolometric_data)"
  using sorted_wrt_if_successively [OF table_T_successively] by (simp add: sorted_wrt_map)

lemma startup_caller_frame: "fst startup ! main_data = bolometric_data"
  by (simp add: startup_def init_heap nth_append main_frame [symmetric])
    (simp add: main_heap_def main_data_def load_bolometric_data_def)

lemma startup_frame: "fst startup ! data bc_util = rev bolometric_data"
  using init_Inr(1) [OF startup_ok [unfolded startup_def]]
  by (simp add: startup_def init_heap main_frame table_sorted nth_append)

lemma table_T_decreasing_in_B_V:
  assumes "r \<in> set bolometric_data" and "s \<in> set bolometric_data" and "B_V r < B_V s"
  shows "T s < T r"
proof -
  have up: "sorted_wrt (\<lambda>r s. B_V r < B_V s) bolometric_data"
    by (intro sorted_wrt_if_successively_up table_B_V_successively)
  have down: "sorted_wrt (\<lambda>r s. T s < T r) bolometric_data"
    by (intro sorted_wrt_if_successively table_T_successively)
  from assms obtain i j where i: "i < length bolometric_data" "r = bolometric_data ! i"
    and j: "j < length bolometric_data" "s = bolometric_data ! j"
    by (auto simp: in_set_conv_nth)
  have "\<not> j < i"
    using sorted_wrt_nth_less [OF up, of j i] i j assms(3) by auto
  moreover have "i \<noteq> j"
    using i j assms(3) by auto
  ultimately have "i < j"
    by simp
  then show ?thesis
    using sorted_wrt_nth_less [OF down, of i j] i j by simp
qed


section \<open>The spline passes through its points\<close>

lemma length_thomas [simp]: "length (thomas es cp dp) = length es"
  by (induction es cp dp rule: thomas.induct) (simp_all add: Let_def)

lemma length_interior_eqns [simp]: "length (interior_eqns ps) = length ps - 2"
  by (induction ps rule: interior_eqns.induct) simp_all

lemma length_close_right [simp]: "length (close_right es) = length es"
  by (induction es rule: close_right.induct) simp_all

lemma length_not_a_knot [simp]: "length (not_a_knot es) = length es"
  by (cases es) simp_all

lemma length_moments: "2 \<le> length ps \<Longrightarrow> length (moments ps) = length ps"
  by (simp add: moments_def Let_def)

lemma attach_moments_points:
  "length ps = length ms \<Longrightarrow>
     map (\<lambda>(x, y, m). (x, y)) (map2 (\<lambda>(x, y) m. (x, y, m)) ps ms) = ps"
  by (induction ps ms rule: list_induct2) auto

lemma spline_knots_points:
  "2 \<le> length ps \<Longrightarrow> map (\<lambda>(x, y, m). (x, y)) (spline_knots ps) = ps"
  unfolding spline_knots_def by (rule attach_moments_points) (simp add: length_moments)

lemma spline_knots_abscissae:
  "2 \<le> length ps \<Longrightarrow> map fst (spline_knots ps) = map fst ps"
proof -
  assume "2 \<le> length ps"
  then have "map fst (map (\<lambda>(x, y, m). (x, y)) (spline_knots ps)) = map fst ps"
    by (simp only: spline_knots_points)
  then show ?thesis
    by (simp add: case_prod_unfold comp_def)
qed

lemma spline_knots_member:
  assumes "2 \<le> length ps" and "(x, y) \<in> set ps"
  shows "\<exists>m. (x, y, m) \<in> set (spline_knots ps)"
proof -
  have "(x, y) \<in> set (map (\<lambda>(x, y, m). (x, y)) (spline_knots ps))"
    using assms by (simp only: spline_knots_points)
  then show ?thesis
    by auto
qed

lemma piece_left:
  assumes "x0 \<noteq> x1"
  shows "piece (x0, y0, m0) (x1, y1, m1) x0 = y0"
proof -
  define h where "h = x1 - x0"
  have h: "h \<noteq> 0"
    using assms by (simp add: h_def)
  have "piece (x0, y0, m0) (x1, y1, m1) x0 = m0 * h ^ 3 / (6 * h) + (y0 / h - m0 * h / 6) * h"
    by (simp add: h_def)
  also have "\<dots> = y0"
    using h by (simp add: field_simps power3_eq_cube)
  finally show ?thesis .
qed

lemma piece_right:
  assumes "x0 \<noteq> x1"
  shows "piece (x0, y0, m0) (x1, y1, m1) x1 = y1"
proof -
  define h where "h = x1 - x0"
  have h: "h \<noteq> 0"
    using assms by (simp add: h_def)
  have "piece (x0, y0, m0) (x1, y1, m1) x1 = m1 * h ^ 3 / (6 * h) + (y1 / h - m1 * h / 6) * h"
    by (simp add: h_def)
  also have "\<dots> = y1"
    using h by (simp add: field_simps power3_eq_cube)
  finally show ?thesis .
qed

lemma evaluate_at_knot:
  assumes "sorted_wrt (<) (map fst ks)" and "(x, y, m) \<in> set ks" and "2 \<le> length ks"
  shows "evaluate ks x = y"
  using assms
proof (induction ks x rule: evaluate.induct)
  case (1 p0 p1 x)
  then show ?case
    by (cases p0; cases p1) (auto simp: piece_left piece_right simp del: piece.simps)
next
  case (2 p0 p1 p2 ps x)
  show ?case
  proof (cases "(x, y, m) = p0 \<or> (x, y, m) = p1")
    case True
    then show ?thesis
      using "2.prems"(1)
      by (cases p0; cases p1) (auto simp: piece_left piece_right simp del: piece.simps)
  next
    case False
    then have mem: "(x, y, m) \<in> set (p2 # ps)"
      using "2.prems"(2) by auto
    then have "fst p1 < x"
      using "2.prems"(1) by force
    then show ?thesis
      using "2.IH" "2.prems"(1) mem by auto
  qed
qed simp_all

lemma scipy_interp1d_Inr:
  assumes "scipy_interp1d xs ys = Inr f"
  shows "length xs = length ys" and "4 \<le> length xs" and "distinct xs"
    and "f = interpolant (sort_key fst (zip xs ys))"
  using assms by (auto simp: scipy_interp1d_def split: if_splits)

lemma sorted_points:
  assumes "length xs = length ys" and "distinct xs"
  shows "sorted_wrt (<) (map fst (sort_key fst (zip xs ys)))"
proof -
  have "distinct (map fst (zip xs ys))"
    using assms by simp
  then have "distinct (map fst (sort_key fst (zip xs ys)))"
    by (simp add: distinct_map)
  then show ?thesis
    by (simp add: strict_sorted_iff)
qed

lemma scipy_interp1d_at_point:
  assumes "scipy_interp1d xs ys = Inr f" and "(x, y) \<in> set (zip xs ys)"
  shows "f (Fin x) = Fin y"
proof -
  define ps where "ps = sort_key fst (zip xs ys)"
  note ok = scipy_interp1d_Inr [OF assms(1)]
  have len: "2 \<le> length ps"
    using ok(1,2) by (simp add: ps_def)
  have "(x, y) \<in> set ps"
    using assms(2) by (simp add: ps_def)
  then obtain m where m: "(x, y, m) \<in> set (spline_knots ps)"
    using spline_knots_member [OF len] by blast
  have "sorted_wrt (<) (map fst (spline_knots ps))"
    using sorted_points [OF ok(1,3)]
    by (simp only: spline_knots_abscissae [OF len] ps_def [symmetric])
  moreover have "2 \<le> length (spline_knots ps)"
    using len by (simp add: spline_knots_def length_moments)
  ultimately have "evaluate (spline_knots ps) x = y"
    using m by (intro evaluate_at_knot)
  then show ?thesis
    by (simp add: ok(4) interpolant_def ps_def)
qed

lemma row_in_columns: "r \<in> set df \<Longrightarrow> (f r, g r) \<in> set (zip (map f df) (map g df))"
  by (induction df) auto

lemma column_bounds:
  assumes "r \<in> set df"
  shows "\<not> np_less (Fin (f r)) (series_min (map f (sort_key g df)))"
    and "\<not> np_less (series_max (map f (sort_key g df))) (Fin (f r))"
proof -
  have ne: "df \<noteq> []"
    using assms by auto
  have "Min (f ` set df) \<le> f r" "f r \<le> Max (f ` set df)"
    using assms by simp_all
  then show "\<not> np_less (Fin (f r)) (series_min (map f (sort_key g df)))"
    and "\<not> np_less (series_max (map f (sort_key g df))) (Fin (f r))"
    by (simp_all add: column_min_sorted [OF ne] column_max_sorted [OF ne] not_less)
qed


section \<open>A bound on the second derivatives\<close>

lemma thomas_bound:
  assumes "\<forall>(a, b, c, r)\<in>set es. \<bar>a\<bar> + \<bar>c\<bar> < \<bar>b\<bar> \<and> \<bar>r\<bar> \<le> B * (\<bar>b\<bar> - \<bar>a\<bar> - \<bar>c\<bar>)"
    and "\<bar>cp\<bar> \<le> 1" and "\<bar>dp\<bar> \<le> B * (1 - \<bar>cp\<bar>)" and "0 \<le> B"
  shows "\<forall>m\<in>set (thomas es cp dp). \<bar>m\<bar> \<le> B"
  using assms
proof (induction es cp dp rule: thomas.induct)
  case (1 cp dp)
  then show ?case by simp
next
  case (2 a b c r es cp dp)
  define den where "den = b - a * cp"
  define c' where "c' = c / den"
  define d' where "d' = (r - a * dp) / den"
  define ms where "ms = thomas es c' d'"
  define nxt where "nxt = (case ms of [] \<Rightarrow> 0 | m # _ \<Rightarrow> m)"
  from "2.prems"(1) have dom: "\<bar>a\<bar> + \<bar>c\<bar> < \<bar>b\<bar>" and rhs: "\<bar>r\<bar> \<le> B * (\<bar>b\<bar> - \<bar>a\<bar> - \<bar>c\<bar>)"
    by auto
  have acp: "\<bar>a * cp\<bar> \<le> \<bar>a\<bar>"
    using "2.prems"(2) by (simp add: abs_mult mult_left_le)
  have "\<bar>b\<bar> - \<bar>a * cp\<bar> \<le> \<bar>den\<bar>"
    unfolding den_def by (rule abs_triangle_ineq2)
  then have den_lower: "\<bar>b\<bar> - \<bar>a\<bar> * \<bar>cp\<bar> \<le> \<bar>den\<bar>"
    by (simp add: abs_mult)
  have den_c: "\<bar>c\<bar> < \<bar>den\<bar>"
    using den_lower acp dom by (simp add: abs_mult)
  then have den_pos: "0 < \<bar>den\<bar>"
    using abs_ge_zero [of c] by linarith
  have c'_abs: "\<bar>c'\<bar> = \<bar>c\<bar> / \<bar>den\<bar>"
    by (simp add: c'_def)
  have c'_le: "\<bar>c'\<bar> \<le> 1"
    using den_c den_pos by (simp add: c'_abs)
  have "\<bar>r - a * dp\<bar> \<le> \<bar>r\<bar> + \<bar>a\<bar> * \<bar>dp\<bar>"
    using abs_triangle_ineq4 [of r "a * dp"] by (simp add: abs_mult)
  also have "\<bar>a\<bar> * \<bar>dp\<bar> \<le> \<bar>a\<bar> * (B * (1 - \<bar>cp\<bar>))"
    using "2.prems"(3) by (intro mult_left_mono) simp_all
  finally have "\<bar>r - a * dp\<bar> \<le> B * (\<bar>b\<bar> - \<bar>a\<bar> - \<bar>c\<bar>) + \<bar>a\<bar> * (B * (1 - \<bar>cp\<bar>))"
    using rhs by linarith
  also have "\<dots> = B * (\<bar>b\<bar> - \<bar>a\<bar> * \<bar>cp\<bar> - \<bar>c\<bar>)"
    by (simp add: algebra_simps)
  also have "\<dots> \<le> B * (\<bar>den\<bar> - \<bar>c\<bar>)"
    using den_lower "2.prems"(4) by (intro mult_left_mono) simp_all
  finally have num: "\<bar>r - a * dp\<bar> \<le> B * (\<bar>den\<bar> - \<bar>c\<bar>)" .
  have "\<bar>d'\<bar> = \<bar>r - a * dp\<bar> / \<bar>den\<bar>"
    by (simp add: d'_def)
  also have "\<dots> \<le> B * (\<bar>den\<bar> - \<bar>c\<bar>) / \<bar>den\<bar>"
    using num den_pos by (simp add: divide_right_mono)
  also have "\<dots> = B * (1 - \<bar>c'\<bar>)"
    using den_pos by (simp add: c'_abs field_simps)
  finally have d'_le: "\<bar>d'\<bar> \<le> B * (1 - \<bar>c'\<bar>)" .
  have rest: "\<forall>m\<in>set ms. \<bar>m\<bar> \<le> B"
    unfolding ms_def
    using "2.prems"(1,4) c'_le d'_le
    by (intro "2.IH" [OF den_def c'_def d'_def]) simp_all
  have nxt: "\<bar>nxt\<bar> \<le> B"
    using rest "2.prems"(4) by (cases ms) (simp_all add: nxt_def)
  have "\<bar>d' - c' * nxt\<bar> \<le> \<bar>d'\<bar> + \<bar>c'\<bar> * \<bar>nxt\<bar>"
    using abs_triangle_ineq4 [of d' "c' * nxt"] by (simp add: abs_mult)
  also have "\<bar>c'\<bar> * \<bar>nxt\<bar> \<le> \<bar>c'\<bar> * B"
    using nxt by (intro mult_left_mono) simp_all
  finally have "\<bar>d' - c' * nxt\<bar> \<le> B * (1 - \<bar>c'\<bar>) + \<bar>c'\<bar> * B"
    using d'_le by linarith
  then have "\<bar>d' - c' * nxt\<bar> \<le> B"
    by (simp add: algebra_simps)
  moreover have "thomas ((a, b, c, r) # es) cp dp = (d' - c' * nxt) # ms"
    by (simp add: Let_def den_def c'_def d'_def ms_def nxt_def)
  ultimately show ?case
    using rest by simp
qed

section \<open>Where the spline is evaluated\<close>

lemma evaluate_locate:
  assumes "2 \<le> length ks"
  shows "\<exists>i. Suc i < length ks \<and> evaluate ks x = piece (ks ! i) (ks ! Suc i) x
           \<and> (i = 0 \<or> fst (ks ! i) < x)
           \<and> (Suc (Suc i) = length ks \<or> x \<le> fst (ks ! Suc i))"
  using assms
proof (induction ks x rule: evaluate.induct)
  case (1 p0 p1 x)
  have "Suc 0 < length [p0, p1] \<and> evaluate [p0, p1] x = piece ([p0, p1] ! 0) ([p0, p1] ! Suc 0) x
        \<and> Suc (Suc 0) = length [p0, p1]"
    by simp
  then show ?case by blast
next
  case (2 p0 p1 p2 ps x)
  show ?case
  proof (cases "x \<le> fst p1")
    case True
    then have "Suc 0 < length (p0 # p1 # p2 # ps)
        \<and> evaluate (p0 # p1 # p2 # ps) x
            = piece ((p0 # p1 # p2 # ps) ! 0) ((p0 # p1 # p2 # ps) ! Suc 0) x
        \<and> x \<le> fst ((p0 # p1 # p2 # ps) ! Suc 0)"
      by simp
    then show ?thesis by blast
  next
    case False
    with "2.IH" obtain i where i: "Suc i < length (p1 # p2 # ps)"
      "evaluate (p1 # p2 # ps) x = piece ((p1 # p2 # ps) ! i) ((p1 # p2 # ps) ! Suc i) x"
      "i = 0 \<or> fst ((p1 # p2 # ps) ! i) < x"
      "Suc (Suc i) = length (p1 # p2 # ps) \<or> x \<le> fst ((p1 # p2 # ps) ! Suc i)"
      by auto
    from i(3) False have "fst ((p1 # p2 # ps) ! i) < x"
      by (cases "i = 0") auto
    with i False have "Suc (Suc i) < length (p0 # p1 # p2 # ps)
        \<and> evaluate (p0 # p1 # p2 # ps) x
            = piece ((p0 # p1 # p2 # ps) ! Suc i) ((p0 # p1 # p2 # ps) ! Suc (Suc i)) x
        \<and> fst ((p0 # p1 # p2 # ps) ! Suc i) < x
        \<and> (Suc (Suc (Suc i)) = length (p0 # p1 # p2 # ps)
            \<or> x \<le> fst ((p0 # p1 # p2 # ps) ! Suc (Suc i)))"
      by simp
    then show ?thesis by blast
  qed
qed simp_all

lemma piece_near_chord:
  assumes "x0 < x" and "x \<le> x1" and "\<bar>m0\<bar> \<le> B" and "\<bar>m1\<bar> \<le> B"
  shows "\<bar>piece (x0, y0, m0) (x1, y1, m1) x - (y0 + (y1 - y0) * (x - x0) / (x1 - x0))\<bar>
           \<le> B * (x - x0) * (x1 - x) / 2"
proof -
  define u where "u = x1 - x"
  define v where "v = x - x0"
  define h where "h = x1 - x0"
  have u: "0 \<le> u" and v: "0 < v" and h: "0 < h" and huv: "h = u + v"
    using assms(1,2) by (simp_all add: u_def v_def h_def)
  have "piece (x0, y0, m0) (x1, y1, m1) x - (y0 + (y1 - y0) * (x - x0) / (x1 - x0))
      = m0 * u ^ 3 / (6 * h) + m1 * v ^ 3 / (6 * h) + (y0 / h - m0 * h / 6) * u
        + (y1 / h - m1 * h / 6) * v - (y0 + (y1 - y0) * v / h)"
    by (simp add: u_def v_def h_def)
  also have "\<dots> = (m0 * u ^ 3 / (6 * h) - m0 * h / 6 * u)
        + (m1 * v ^ 3 / (6 * h) - m1 * h / 6 * v)
        + (y0 / h * u + y1 / h * v - (y0 + (y1 - y0) * v / h))"
    by (simp add: algebra_simps)
  also have "y0 / h * u + y1 / h * v - (y0 + (y1 - y0) * v / h) = 0"
  proof -
    have "y0 / h * u + y1 / h * v - (y0 + (y1 - y0) * v / h) = y0 * (u + v) / h - y0"
      by (simp add: algebra_simps diff_divide_distrib add_divide_distrib)
    also have "\<dots> = 0"
      using h by (simp add: huv [symmetric])
    finally show ?thesis .
  qed
  also have "m0 * u ^ 3 / (6 * h) - m0 * h / 6 * u = - (m0 * (u * v * (u + h))) / (6 * h)"
  proof -
    have "m0 * h / 6 * u = m0 * (h * h * u) / (6 * h)"
      using h by simp
    then have "m0 * u ^ 3 / (6 * h) - m0 * h / 6 * u = (m0 * u ^ 3 - m0 * (h * h * u)) / (6 * h)"
      by (simp add: diff_divide_distrib)
    also have "m0 * u ^ 3 - m0 * (h * h * u) = - (m0 * (u * v * (u + h)))"
      unfolding huv by (simp add: algebra_simps power3_eq_cube)
    finally show ?thesis .
  qed
  also have "m1 * v ^ 3 / (6 * h) - m1 * h / 6 * v = - (m1 * (u * v * (v + h))) / (6 * h)"
  proof -
    have "m1 * h / 6 * v = m1 * (h * h * v) / (6 * h)"
      using h by simp
    then have "m1 * v ^ 3 / (6 * h) - m1 * h / 6 * v = (m1 * v ^ 3 - m1 * (h * h * v)) / (6 * h)"
      by (simp add: diff_divide_distrib)
    also have "m1 * v ^ 3 - m1 * (h * h * v) = - (m1 * (u * v * (v + h)))"
      unfolding huv by (simp add: algebra_simps power3_eq_cube)
    finally show ?thesis .
  qed
  also have "- (m0 * (u * v * (u + h))) / (6 * h) + - (m1 * (u * v * (v + h))) / (6 * h) + 0
      = - (m0 * (u * v * (u + h)) + m1 * (u * v * (v + h))) / (6 * h)"
    by (simp add: add_divide_distrib diff_divide_distrib)
  finally have eq: "piece (x0, y0, m0) (x1, y1, m1) x - (y0 + (y1 - y0) * (x - x0) / (x1 - x0))
      = - (m0 * (u * v * (u + h)) + m1 * (u * v * (v + h))) / (6 * h)" .
  have w0: "0 \<le> u * v * (u + h)" and w1: "0 \<le> u * v * (v + h)"
    using u v h by simp_all
  have a0: "\<bar>m0 * (u * v * (u + h))\<bar> = \<bar>m0\<bar> * (u * v * (u + h))"
    by (subst abs_mult) (simp only: abs_of_nonneg [OF w0])
  have a1: "\<bar>m1 * (u * v * (v + h))\<bar> = \<bar>m1\<bar> * (u * v * (v + h))"
    by (subst abs_mult) (simp only: abs_of_nonneg [OF w1])
  have "\<bar>m0 * (u * v * (u + h)) + m1 * (u * v * (v + h))\<bar>
      \<le> \<bar>m0 * (u * v * (u + h))\<bar> + \<bar>m1 * (u * v * (v + h))\<bar>"
    by (rule abs_triangle_ineq)
  also have "\<dots> = \<bar>m0\<bar> * (u * v * (u + h)) + \<bar>m1\<bar> * (u * v * (v + h))"
    by (simp only: a0 a1)
  also have "\<dots> \<le> B * (u * v * (u + h)) + B * (u * v * (v + h))"
    using assms(3,4) w0 w1 by (intro add_mono mult_right_mono)
  also have "\<dots> = B * v * u / 2 * (6 * h)"
    unfolding huv by (simp add: algebra_simps)
  finally have "\<bar>m0 * (u * v * (u + h)) + m1 * (u * v * (v + h))\<bar> / (6 * h)
      \<le> B * v * u / 2 * (6 * h) / (6 * h)"
    using h by (intro divide_right_mono) simp_all
  also have "\<dots> = B * v * u / 2"
    using h by simp
  finally have "\<bar>m0 * (u * v * (u + h)) + m1 * (u * v * (v + h))\<bar> / (6 * h) \<le> B * v * u / 2" .
  then have "\<bar>m0 * (u * v * (u + h)) + m1 * (u * v * (v + h))\<bar> / \<bar>6 * h\<bar>
      \<le> B * (x - x0) * (x1 - x) / 2"
    using h by (simp only: u_def v_def abs_of_pos mult_pos_pos zero_less_numeral)
  then show ?thesis
    unfolding eq by (simp only: abs_divide abs_minus_cancel)
qed

lemma adjacent_all:
  assumes "list_all (\<lambda>(p, q). P p q) (zip xs (tl xs))" and "Suc i < length xs"
  shows "P (xs ! i) (xs ! Suc i)"
proof -
  have "i < length (zip xs (tl xs))"
    using assms(2) by simp
  then have "(\<lambda>(p, q). P p q) (zip xs (tl xs) ! i)"
    using assms(1) by (simp only: list_all_length)
  then show ?thesis
    using assms(2) by (simp add: nth_tl)
qed

lemma moments_inner:
  assumes "2 \<le> length ps" and "1 \<le> i" and "Suc i < length ps"
  shows "moments ps ! i \<in> set (thomas (not_a_knot (interior_eqns ps)) 0 0)"
proof -
  define ms where "ms = thomas (not_a_knot (interior_eqns ps)) 0 0"
  have len: "length ms = length ps - 2"
    by (simp add: ms_def)
  obtain j where j: "i = Suc j"
    using assms(2) by (cases i) auto
  have "j < length ms"
    using assms(3) j len by simp
  then have "(end_moment ps ms # ms @ [end_moment (rev ps) (rev ms)]) ! i = ms ! j"
    by (simp add: j nth_append)
  then show ?thesis
    using \<open>j < length ms\<close> by (simp add: moments_def Let_def ms_def [symmetric])
qed

lemma spline_knots_nth:
  assumes "2 \<le> length ps" and "i < length ps"
  shows "spline_knots ps ! i = (fst (ps ! i), snd (ps ! i), moments ps ! i)"
  using assms by (simp add: spline_knots_def length_moments case_prod_unfold)

lemma spline_near_chord:
  assumes "4 \<le> length ps"
    and "\<forall>(a, b, c, r)\<in>set (not_a_knot (interior_eqns ps)).
           \<bar>a\<bar> + \<bar>c\<bar> < \<bar>b\<bar> \<and> \<bar>r\<bar> \<le> B * (\<bar>b\<bar> - \<bar>a\<bar> - \<bar>c\<bar>)"
    and "0 \<le> B"
    and "fst (ps ! 1) < x" and "x \<le> fst (ps ! (length ps - 2))"
  shows "\<exists>i. Suc i < length ps \<and> fst (ps ! i) < x \<and> x \<le> fst (ps ! Suc i)
     \<and> \<bar>evaluate (spline_knots ps) x
          - (snd (ps ! i) + (snd (ps ! Suc i) - snd (ps ! i)) * (x - fst (ps ! i))
               / (fst (ps ! Suc i) - fst (ps ! i)))\<bar>
        \<le> B * (x - fst (ps ! i)) * (fst (ps ! Suc i) - x) / 2"
proof -
  have len2: "2 \<le> length ps"
    using assms(1) by simp
  have klen: "length (spline_knots ps) = length ps"
    using len2 by (simp add: spline_knots_def length_moments)
  from evaluate_locate [of "spline_knots ps" x] klen len2
  obtain i where i: "Suc i < length ps"
    "evaluate (spline_knots ps) x = piece (spline_knots ps ! i) (spline_knots ps ! Suc i) x"
    "i = 0 \<or> fst (spline_knots ps ! i) < x"
    "Suc (Suc i) = length ps \<or> x \<le> fst (spline_knots ps ! Suc i)"
    by auto
  have k: "spline_knots ps ! i = (fst (ps ! i), snd (ps ! i), moments ps ! i)"
    "spline_knots ps ! Suc i = (fst (ps ! Suc i), snd (ps ! Suc i), moments ps ! Suc i)"
    using i(1) len2 by (simp_all add: spline_knots_nth)
  have "i \<noteq> 0"
  proof
    assume "i = 0"
    with i(4) k(2) assms(1,4) show False by simp
  qed
  then have lo: "fst (ps ! i) < x" and i1: "1 \<le> i"
    using i(3) k(1) by simp_all
  have "Suc (Suc i) \<noteq> length ps"
  proof
    assume "Suc (Suc i) = length ps"
    then have "length ps - 2 = i" by simp
    with assms(5) lo show False by simp
  qed
  then have hi: "x \<le> fst (ps ! Suc i)" and i2: "Suc (Suc i) < length ps"
    using i(1,4) k(2) by simp_all
  have bound: "\<forall>m\<in>set (thomas (not_a_knot (interior_eqns ps)) 0 0). \<bar>m\<bar> \<le> B"
    using assms(2,3) by (intro thomas_bound) simp_all
  have m0: "\<bar>moments ps ! i\<bar> \<le> B"
    using bound moments_inner [OF len2 i1 i(1)] by blast
  have m1: "\<bar>moments ps ! Suc i\<bar> \<le> B"
    using bound moments_inner [OF len2 _ i2] by simp
  show ?thesis
    using piece_near_chord [OF lo hi m0 m1, of "snd (ps ! i)" "snd (ps ! Suc i)"] i(1) lo hi
    unfolding i(2) k by blast
qed

lemma spline_between:
  assumes "4 \<le> length ps"
    and "\<forall>(a, b, c, r)\<in>set (not_a_knot (interior_eqns ps)).
           \<bar>a\<bar> + \<bar>c\<bar> < \<bar>b\<bar> \<and> \<bar>r\<bar> \<le> B * (\<bar>b\<bar> - \<bar>a\<bar> - \<bar>c\<bar>)"
    and "0 \<le> B"
    and "fst (ps ! 1) < x" and "x \<le> fst (ps ! (length ps - 2))"
    and "list_all (\<lambda>(p, q). fst p < x \<and> x \<le> fst q \<longrightarrow>
            lo \<le> snd p + (snd q - snd p) * (x - fst p) / (fst q - fst p)
                  - B * (x - fst p) * (fst q - x) / 2
          \<and> snd p + (snd q - snd p) * (x - fst p) / (fst q - fst p)
                  + B * (x - fst p) * (fst q - x) / 2 \<le> hi) (zip ps (tl ps))"
  shows "lo \<le> evaluate (spline_knots ps) x \<and> evaluate (spline_knots ps) x \<le> hi"
proof -
  from spline_near_chord [OF assms(1-5)] obtain i where i: "Suc i < length ps"
    "fst (ps ! i) < x" "x \<le> fst (ps ! Suc i)"
    "\<bar>evaluate (spline_knots ps) x
          - (snd (ps ! i) + (snd (ps ! Suc i) - snd (ps ! i)) * (x - fst (ps ! i))
               / (fst (ps ! Suc i) - fst (ps ! i)))\<bar>
        \<le> B * (x - fst (ps ! i)) * (fst (ps ! Suc i) - x) / 2"
    by blast
  from adjacent_all [OF assms(6) i(1)] i(2,3)
  have "lo \<le> snd (ps ! i) + (snd (ps ! Suc i) - snd (ps ! i)) * (x - fst (ps ! i))
               / (fst (ps ! Suc i) - fst (ps ! i))
             - B * (x - fst (ps ! i)) * (fst (ps ! Suc i) - x) / 2"
    and "snd (ps ! i) + (snd (ps ! Suc i) - snd (ps ! i)) * (x - fst (ps ! i))
               / (fst (ps ! Suc i) - fst (ps ! i))
             + B * (x - fst (ps ! i)) * (fst (ps ! Suc i) - x) / 2 \<le> hi"
    by simp_all
  with i(4) show ?thesis
    by linarith
qed

section \<open>The spline of the embedded table near 5780 K\<close>

lemma zip_columns: "zip (map f df) (map g df) = map (\<lambda>r. (f r, g r)) df"
  by (induction df) simp_all

lemma T_points:
  "sort_key fst (zip (map T (rev bolometric_data)) (map BC (rev bolometric_data)))
     = map (\<lambda>r. (T r, BC r)) (rev bolometric_data)"
proof -
  have "sorted_wrt (<) (map T (rev bolometric_data))"
    using sorted_wrt_if_successively [OF table_T_successively]
    by (simp add: sorted_wrt_map sorted_wrt_rev)
  then have "sorted (map T (rev bolometric_data))"
    by (simp add: strict_sorted_iff)
  then have "sorted (map fst (map (\<lambda>r. (T r, BC r)) (rev bolometric_data)))"
    by (simp add: comp_def)
  then show ?thesis
    unfolding zip_columns by (rule sort_key_id_if_sorted)
qed

lemma bc_util_from_T:
  "bc_from_T bc_util = interpolant (map (\<lambda>r. (T r, BC r)) (rev bolometric_data))"
  using scipy_interp1d_Inr(4) [OF init_Inr(2) [OF startup_ok [unfolded startup_def]]]
  by (simp only: main_frame table_sorted T_points)

lemma T_points_explicit:
  "map (\<lambda>r. (T r, BC r)) (rev bolometric_data) = rev (map (\<lambda>r. (T r, BC r)) bolometric_data)"
  by (simp add: rev_map)

lemma T_dominant:
  "list_all (\<lambda>(a, b, c, r). \<bar>a\<bar> + \<bar>c\<bar> < \<bar>b\<bar> \<and> \<bar>r\<bar> \<le> (4 / 100000) * (\<bar>b\<bar> - \<bar>a\<bar> - \<bar>c\<bar>))
     (not_a_knot (interior_eqns (map (\<lambda>r. (T r, BC r)) (rev bolometric_data))))"
  unfolding bolometric_data_def mk_row_def by simp

lemma T_chords_5780:
  "list_all (\<lambda>(p, q). fst p < 5780 \<and> 5780 \<le> fst q \<longrightarrow>
            - 0.083 \<le> snd p + (snd q - snd p) * (5780 - fst p) / (fst q - fst p)
                  - (4 / 100000) * (5780 - fst p) * (fst q - 5780) / 2
          \<and> snd p + (snd q - snd p) * (5780 - fst p) / (fst q - fst p)
                  + (4 / 100000) * (5780 - fst p) * (fst q - 5780) / 2 \<le> - 0.077)
     (zip (map (\<lambda>r. (T r, BC r)) (rev bolometric_data))
          (tl (map (\<lambda>r. (T r, BC r)) (rev bolometric_data))))"
  unfolding bolometric_data_def mk_row_def by simp

lemma T_points_ends:
  "fst (map (\<lambda>r. (T r, BC r)) (rev bolometric_data) ! 1) = 3000"
  "fst (map (\<lambda>r. (T r, BC r)) (rev bolometric_data)
          ! (length (map (\<lambda>r. (T r, BC r)) (rev bolometric_data)) - 2)) = 50477"
  by (simp_all add: length_table rev_nth) (simp_all add: bolometric_data_def mk_row_def)

lemma bc_util_5780:
  "- 0.083 \<le> evaluate (spline_knots (map (\<lambda>r. (T r, BC r)) (rev bolometric_data))) 5780
   \<and> evaluate (spline_knots (map (\<lambda>r. (T r, BC r)) (rev bolometric_data))) 5780 \<le> - 0.077"
proof (rule spline_between [where B = "4 / 100000"])
  show "4 \<le> length (map (\<lambda>r. (T r, BC r)) (rev bolometric_data))"
    by (simp add: length_table)
  show "\<forall>(a, b, c, r)\<in>set (not_a_knot (interior_eqns (map (\<lambda>r. (T r, BC r)) (rev bolometric_data)))).
           \<bar>a\<bar> + \<bar>c\<bar> < \<bar>b\<bar> \<and> \<bar>r\<bar> \<le> 4 / 100000 * (\<bar>b\<bar> - \<bar>a\<bar> - \<bar>c\<bar>)"
    using T_dominant by (simp only: list_all_iff)
  show "(0::real) \<le> 4 / 100000"
    by simp
  show "fst (map (\<lambda>r. (T r, BC r)) (rev bolometric_data) ! 1) < 5780"
    unfolding T_points_ends by simp
  show "5780 \<le> fst (map (\<lambda>r. (T r, BC r)) (rev bolometric_data)
          ! (length (map (\<lambda>r. (T r, BC r)) (rev bolometric_data)) - 2))"
    unfolding T_points_ends by simp
  show "list_all (\<lambda>(p, q). fst p < 5780 \<and> 5780 \<le> fst q \<longrightarrow>
            - 0.083 \<le> snd p + (snd q - snd p) * (5780 - fst p) / (fst q - fst p)
                  - 4 / 100000 * (5780 - fst p) * (fst q - 5780) / 2
          \<and> snd p + (snd q - snd p) * (5780 - fst p) / (fst q - fst p)
                  + 4 / 100000 * (5780 - fst p) * (fst q - 5780) / 2 \<le> - 0.077)
     (zip (map (\<lambda>r. (T r, BC r)) (rev bolometric_data))
          (tl (map (\<lambda>r. (T r, BC r)) (rev bolometric_data))))"
    by (rule T_chords_5780)
qed


section \<open>The derivatives of a piece\<close>











section \<open>The elimination solves the system\<close>









section \<open>The system of a table with increasing abscissae\<close>








section \<open>The second derivatives satisfy the equations of the spline\<close>





section \<open>The pieces fit together\<close>










section \<open>The decimal logarithm of the temperatures\<close>

lemma root_bound_lower:
  fixes v w e :: real
  assumes "v ^ 10 \<le> w" "w \<le> 10 powr e"
  shows "v \<le> 10 powr (e / 10)"
proof -
  have "(10 powr (e / 10)) ^ 10 = 10 powr e"
    by (simp add: powr_powr flip: powr_realpow)
  then have "v ^ Suc 9 \<le> (10 powr (e / 10)) ^ Suc 9"
    using assms by simp
  then show ?thesis
    by (rule power_le_imp_le_base) simp
qed

lemma root_bound_upper:
  fixes v w e :: real
  assumes "0 \<le> v" "w \<le> v ^ 10" "10 powr e \<le> w"
  shows "10 powr (e / 10) \<le> v"
proof -
  have "(10 powr (e / 10)) ^ 10 = 10 powr e"
    by (simp add: powr_powr flip: powr_realpow)
  then have "(10 powr (e / 10)) ^ Suc 9 \<le> v ^ Suc 9"
    using assms by simp
  then show ?thesis
    by (rule power_le_imp_le_base) (rule assms(1))
qed

lemma digits10: "[0..<10] = [0, 1, 2, 3, 4, 5, 6, 7, 8, 9]"
  by (simp add: upt_rec)

lemma lower_level_0:
  "list_all (\<lambda>d. 0 < pow10_lower ! 0 ! d \<and> (pow10_lower ! 0 ! d) ^ 10 \<le> 10 ^ d) [0..<10]"
  unfolding digits10 by (simp add: pow10_lower_def power_divide)

lemma lower_level_Suc:
  "list_all (\<lambda>j. list_all (\<lambda>d. 0 < pow10_lower ! Suc j ! d
      \<and> (pow10_lower ! Suc j ! d) ^ 10 \<le> pow10_lower ! j ! d) [0..<10]) [0, 1, 2]"
  unfolding digits10 by (simp add: pow10_lower_def power_divide)

lemma upper_level_0:
  "list_all (\<lambda>d. 0 < pow10_upper ! 0 ! d \<and> 10 ^ d \<le> (pow10_upper ! 0 ! d) ^ 10) [0..<10]"
  unfolding digits10 by (simp add: pow10_upper_def power_divide)

lemma upper_level_Suc:
  "list_all (\<lambda>j. list_all (\<lambda>d. 0 < pow10_upper ! Suc j ! d
      \<and> pow10_upper ! j ! d \<le> (pow10_upper ! Suc j ! d) ^ 10) [0..<10]) [0, 1, 2]"
  unfolding digits10 by (simp add: pow10_upper_def power_divide)

lemma pow10_lower_le:
  "d < 10 \<Longrightarrow> j < 4 \<Longrightarrow>
     0 < pow10_lower ! j ! d \<and> pow10_lower ! j ! d \<le> 10 powr (real d / 10 ^ Suc j)"
proof (induction j)
  case 0
  then have v: "0 < pow10_lower ! 0 ! d" "(pow10_lower ! 0 ! d) ^ 10 \<le> 10 ^ d"
    using lower_level_0 by (simp_all add: list_all_iff)
  have "pow10_lower ! 0 ! d \<le> 10 powr (real d / 10)"
    by (rule root_bound_lower [OF v(2)]) (simp add: powr_realpow)
  then show ?case
    using v(1) by simp
next
  case (Suc j)
  then have j: "j \<in> set [0, 1, 2]"
    by auto
  have v: "0 < pow10_lower ! Suc j ! d"
    "(pow10_lower ! Suc j ! d) ^ 10 \<le> pow10_lower ! j ! d"
    using lower_level_Suc j Suc.prems(1) unfolding list_all_iff by auto
  have "pow10_lower ! j ! d \<le> 10 powr (real d / 10 ^ Suc j)"
    using Suc by simp
  then have "pow10_lower ! Suc j ! d \<le> 10 powr (real d / 10 ^ Suc j / 10)"
    by (rule root_bound_lower [OF v(2)])
  then show ?case
    using v(1) by (simp add: field_simps)
qed

lemma pow10_upper_ge:
  "d < 10 \<Longrightarrow> j < 4 \<Longrightarrow>
     0 < pow10_upper ! j ! d \<and> 10 powr (real d / 10 ^ Suc j) \<le> pow10_upper ! j ! d"
proof (induction j)
  case 0
  then have v: "0 < pow10_upper ! 0 ! d" "10 ^ d \<le> (pow10_upper ! 0 ! d) ^ 10"
    using upper_level_0 by (simp_all add: list_all_iff)
  have "10 powr (real d / 10) \<le> pow10_upper ! 0 ! d"
    by (rule root_bound_upper [OF _ v(2)]) (use v(1) in \<open>simp_all add: powr_realpow\<close>)
  then show ?case
    using v(1) by simp
next
  case (Suc j)
  then have j: "j \<in> set [0, 1, 2]"
    by auto
  have v: "0 < pow10_upper ! Suc j ! d"
    "pow10_upper ! j ! d \<le> (pow10_upper ! Suc j ! d) ^ 10"
    using upper_level_Suc j Suc.prems(1) unfolding list_all_iff by auto
  have prev: "10 powr (real d / 10 ^ Suc j) \<le> pow10_upper ! j ! d"
    using Suc by simp
  have "10 powr (real d / 10 ^ Suc j / 10) \<le> pow10_upper ! Suc j ! d"
    by (rule root_bound_upper [OF _ v(2) prev]) (use v(1) in simp)
  then show ?case
    using v(1) by (simp add: field_simps)
qed

lemma pow10_digits:
  "10 powr (real k / 10000) =
     10 ^ (k div 10000)
     * 10 powr (real (k div 1000 mod 10) / 10 ^ Suc 0)
     * 10 powr (real (k div 100 mod 10) / 10 ^ Suc 1)
     * 10 powr (real (k div 10 mod 10) / 10 ^ Suc 2)
     * 10 powr (real (k mod 10) / 10 ^ Suc 3)"
proof -
  have d: "k div 10 div 10 = k div 100" "k div 100 div 10 = k div 1000"
    "k div 1000 div 10 = k div 10000"
    by (simp_all add: div_mult2_eq [symmetric])
  have "k = 10 * (k div 10) + k mod 10"
    "k div 10 = 10 * (k div 10 div 10) + k div 10 mod 10"
    "k div 100 = 10 * (k div 100 div 10) + k div 100 mod 10"
    "k div 1000 = 10 * (k div 1000 div 10) + k div 1000 mod 10"
    by simp_all
  then have "k = 10000 * (k div 10000) + 1000 * (k div 1000 mod 10)
      + 100 * (k div 100 mod 10) + 10 * (k div 10 mod 10) + k mod 10"
    unfolding d by linarith
  then have "real k = real (10000 * (k div 10000) + 1000 * (k div 1000 mod 10)
      + 100 * (k div 100 mod 10) + 10 * (k div 10 mod 10) + k mod 10)"
    by simp
  then have "real k = 10000 * real (k div 10000) + 1000 * real (k div 1000 mod 10)
      + 100 * real (k div 100 mod 10) + 10 * real (k div 10 mod 10) + real (k mod 10)"
    by (simp only: of_nat_add of_nat_mult of_nat_numeral)
  then have "real k / 10000 = real (k div 10000) + real (k div 1000 mod 10) / 10 ^ Suc 0
      + real (k div 100 mod 10) / 10 ^ Suc 1 + real (k div 10 mod 10) / 10 ^ Suc 2
      + real (k mod 10) / 10 ^ Suc 3"
    by simp
  then show ?thesis
    by (simp only: powr_add powr_realpow [of 10, simplified, symmetric])
qed

lemma product_mono:
  fixes a :: real
  assumes "0 \<le> a"
    and "0 < b1 \<and> b1 \<le> c1" and "0 < b2 \<and> b2 \<le> c2" and "0 < b3 \<and> b3 \<le> c3"
    and "0 < b4 \<and> b4 \<le> c4"
  shows "a * b1 * b2 * b3 * b4 \<le> a * c1 * c2 * c3 * c4"
proof -
  have 1: "a * b1 \<le> a * c1" "0 \<le> a * b1" "0 \<le> a * c1"
    using assms by (simp_all add: mult_left_mono)
  have 2: "a * b1 * b2 \<le> a * c1 * c2" "0 \<le> a * b1 * b2" "0 \<le> a * c1 * c2"
    using 1 assms by (simp_all add: mult_mono)
  have 3: "a * b1 * b2 * b3 \<le> a * c1 * c2 * c3" "0 \<le> a * b1 * b2 * b3"
    "0 \<le> a * c1 * c2 * c3"
    using 2 assms by (simp_all add: mult_mono)
  show ?thesis
    using 3 assms by (simp add: mult_mono)
qed

lemma pow10_below_le: "pow10_below k \<le> 10 powr (real k / 10000)"
proof -
  have d: "k div 1000 mod 10 < 10" "k div 100 mod 10 < 10" "k div 10 mod 10 < 10" "k mod 10 < 10"
    by simp_all
  show ?thesis
    unfolding pow10_below_def pow10_digits
    by (rule product_mono, simp, rule pow10_lower_le [OF d(1)], simp,
        rule pow10_lower_le [OF d(2)], simp, rule pow10_lower_le [OF d(3)], simp,
        rule pow10_lower_le [OF d(4)], simp)
qed

lemma pow10_above_ge: "10 powr (real k / 10000) \<le> pow10_above k"
proof -
  have d: "k div 1000 mod 10 < 10" "k div 100 mod 10 < 10" "k div 10 mod 10 < 10" "k mod 10 < 10"
    by simp_all
  have p: "0 < x \<and> x \<le> y" if "0 < y \<and> x \<le> y" "0 < x" for x y :: real
    using that by simp
  show ?thesis
    unfolding pow10_above_def pow10_digits
    by (rule product_mono, simp, rule p, rule pow10_upper_ge [OF d(1)], simp, simp,
        rule p, rule pow10_upper_ge [OF d(2)], simp, simp,
        rule p, rule pow10_upper_ge [OF d(3)], simp, simp,
        rule p, rule pow10_upper_ge [OF d(4)], simp, simp)
qed

lemma log10_near:
  assumes "0 < t" and "2 \<le> k" and "pow10_above (k - 2) \<le> t" and "t \<le> pow10_below (k + 2)"
  shows "\<bar>real k / 10000 - log 10 t\<bar> \<le> 2 / 10000"
proof -
  have "10 powr (real (k - 2) / 10000) \<le> t"
    using pow10_above_ge [of "k - 2"] assms(3) by linarith
  then have "real (k - 2) / 10000 \<le> log 10 t"
    using assms(1) le_log_iff [of 10 t "real (k - 2) / 10000"] by simp
  moreover have "real (k - 2) / 10000 = real k / 10000 - 2 / 10000"
    using assms(2) by (simp add: of_nat_diff diff_divide_distrib)
  moreover have "t \<le> 10 powr (real (k + 2) / 10000)"
    using pow10_below_le [of "k + 2"] assms(4) by linarith
  then have "log 10 t \<le> real (k + 2) / 10000"
    using assms(1) log_le_iff [of 10 t "real (k + 2) / 10000"] by simp
  moreover have "real (k + 2) / 10000 = real k / 10000 + 2 / 10000"
    by (simp add: add_divide_distrib)
  ultimately show ?thesis
    by linarith
qed

lemma table_log10_certificate:
  "list_all (\<lambda>r. 0 < T r \<and> 2 \<le> nat \<lfloor>logT r * 10000\<rfloor>
      \<and> logT r = real (nat \<lfloor>logT r * 10000\<rfloor>) / 10000
      \<and> pow10_above (nat \<lfloor>logT r * 10000\<rfloor> - 2) \<le> T r
      \<and> T r \<le> pow10_below (nat \<lfloor>logT r * 10000\<rfloor> + 2)) bolometric_data"
  unfolding bolometric_data_def mk_row_def
  by (simp add: pow10_above_def pow10_below_def pow10_lower_def pow10_upper_def)

lemma table_log10_near:
  assumes "r \<in> set bolometric_data"
  shows "\<bar>logT r - log 10 (T r)\<bar> \<le> 2 / 10000"
proof -
  from assms table_log10_certificate
  have c: "0 < T r" "2 \<le> nat \<lfloor>logT r * 10000\<rfloor>"
    "logT r = real (nat \<lfloor>logT r * 10000\<rfloor>) / 10000"
    "pow10_above (nat \<lfloor>logT r * 10000\<rfloor> - 2) \<le> T r"
    "T r \<le> pow10_below (nat \<lfloor>logT r * 10000\<rfloor> + 2)"
    unfolding list_all_iff by blast+
  from log10_near [OF c(1,2,4,5)] show ?thesis
    by (subst c(3))
qed

lemma log10_3061: "1 / 10000 < 3.4860 - log 10 (3061 :: real)"
proof -
  have "(3061 :: real) < pow10_below 34859"
    by (simp add: pow10_below_def pow10_lower_def)
  also have "\<dots> \<le> 10 powr (real 34859 / 10000)"
    by (rule pow10_below_le)
  finally have "log 10 (3061 :: real) < real 34859 / 10000"
    using log_less_iff [of 10 3061 "real 34859 / 10000"] by simp
  then show ?thesis
    by simp
qed

lemma table_row_213: "mk_row 1.78 3.4860 (- 4.544) 3061 \<in> set bolometric_data"
  unfolding bolometric_data_def by simp

section \<open>The claims about the program\<close>

text \<open>
  Claim C1 (boundary classification), as amended. The bounds of an axis are the least and
  the greatest value of its column, fixed by the constructor. A finite query value \<open>v\<close>
  is classified as an extrapolation exactly when \<^verbatim>\<open>verbose\<close> is set and \<open>v\<close> lies below the
  minimum or above the maximum of its axis; with \<open>min \<le> v \<le> max\<close> it is never classified
  so. This holds for the temperature, the log-temperature and the colour axis.
\<close>

theorem boundary_classification:
  assumes "snd (BolometricCorrection_init interp1d h a) = Inr self"
    and "h ! a \<noteq> []"
  shows "T_min self = Fin (Min (T ` set (h ! a))) \<and> T_max self = Fin (Max (T ` set (h ! a)))
   \<and> logT_min self = Fin (Min (logT ` set (h ! a)))
   \<and> logT_max self = Fin (Max (logT ` set (h ! a)))
   \<and> BV_min self = Fin (Min (B_V ` set (h ! a))) \<and> BV_max self = Fin (Max (B_V ` set (h ! a)))
   \<and> extrapolated (get_BC_from_T h' self (Scalar (Fin v)) verbose)
       = (verbose \<and> (v < Min (T ` set (h ! a)) \<or> Max (T ` set (h ! a)) < v))
   \<and> extrapolated (get_BC_from_logT h' self (Scalar (Fin v)) verbose)
       = (verbose \<and> (v < Min (logT ` set (h ! a)) \<or> Max (logT ` set (h ! a)) < v))
   \<and> extrapolated (get_BC_from_BV h' self (Scalar (Fin v)) verbose)
       = (verbose \<and> (v < Min (B_V ` set (h ! a)) \<or> Max (B_V ` set (h ! a)) < v))"
  using init_Inr(5-10) [OF assms(1)]
  by (simp add: column_min_sorted [OF assms(2)] column_max_sorted [OF assms(2)]
      extrapolated_T_scalar extrapolated_logT_scalar extrapolated_BV_scalar)

theorem boundary_classification_witness:
  "snd (BolometricCorrection_init scipy_interp1d main_heap main_data) = Inr bc_util
   \<and> main_heap ! main_data \<noteq> []
   \<and> T_min bc_util = Fin 2936 \<and> T_max bc_util = Fin 56728
   \<and> \<not> extrapolated (get_BC_from_T (fst startup) bc_util (Scalar (Fin 5780)) True)
   \<and> extrapolated (get_BC_from_T (fst startup) bc_util (Scalar (Fin 100000)) True)
   \<and> extrapolated (get_BC_from_logT (fst startup) bc_util (Scalar (Fin 3)) True)
   \<and> \<not> extrapolated (get_BC_from_BV (fst startup) bc_util (Scalar (Fin 1.80)) True)"
proof -
  have ok: "snd (BolometricCorrection_init scipy_interp1d main_heap main_data) = Inr bc_util"
    using startup_ok by (simp add: startup_def)
  have ne: "main_heap ! main_data \<noteq> []"
    by (simp add: main_frame table_nonempty)
  show ?thesis
    using boundary_classification [OF ok ne, of "fst startup" 5780 True]
      boundary_classification [OF ok ne, of "fst startup" 100000 True]
      boundary_classification [OF ok ne, of "fst startup" 3 True]
      boundary_classification [OF ok ne, of "fst startup" "1.80" True] ok ne
    by (simp add: main_frame table_bounds)
qed

text \<open>
  Claim C1 as stated leaves \<^verbatim>\<open>verbose\<close> out: with \<^verbatim>\<open>verbose=False\<close>, as
  \<^verbatim>\<open>batch_process\<close> calls the queries, a temperature above the maximum of the table is not
  classified as an extrapolation.
\<close>

theorem boundary_classification_counterexample:
  "np_less (T_max bc_util) (Fin 100000)
   \<and> \<not> extrapolated (get_BC_from_T (fst startup) bc_util (Scalar (Fin 100000)) False)"
  by (simp add: bc_util_bounds extrapolated_T_scalar)

text \<open>
  Claim C3 (non-finite queries), as amended. A query value that is NaN or an infinity is
  not refused: each of the three queries returns the value of its interpolant there,
  which for an interpolant made by SciPy's routine is not a finite number and is NaN for
  a NaN query; a NaN prints no warning; and the call leaves the store and the object as
  they were, so no other query is affected.
\<close>

theorem non_finite_query:
  assumes "\<not> isfinite v"
  shows "returned (get_BC_from_T h self (Scalar v) verbose) = Scalar (bc_from_T self v)
   \<and> returned (get_BC_from_logT h self (Scalar v) verbose) = Scalar (bc_from_logT self v)
   \<and> returned (get_BC_from_BV h self (Scalar v) verbose) = Scalar (bc_from_BV self v)
   \<and> (snd (BolometricCorrection_init scipy_interp1d h0 a) = Inr self \<longrightarrow>
        \<not> isfinite (bc_from_T self v) \<and> \<not> isfinite (bc_from_logT self v)
        \<and> \<not> isfinite (bc_from_BV self v)
        \<and> bc_from_T self NaN = NaN \<and> bc_from_logT self NaN = NaN
        \<and> bc_from_BV self NaN = NaN)
   \<and> (v = NaN \<longrightarrow> stdout (get_BC_from_T h self (Scalar v) verbose) = []
        \<and> stdout (get_BC_from_logT h self (Scalar v) verbose) = []
        \<and> stdout (get_BC_from_BV h self (Scalar v) verbose) = [])
   \<and> heap_after (get_BC_from_T h self (Scalar v) verbose) = h
   \<and> self_after (get_BC_from_T h self (Scalar v) verbose) = self
   \<and> heap_after (get_BC_from_logT h self (Scalar v) verbose) = h
   \<and> self_after (get_BC_from_logT h self (Scalar v) verbose) = self
   \<and> heap_after (get_BC_from_BV h self (Scalar v) verbose) = h
   \<and> self_after (get_BC_from_BV h self (Scalar v) verbose) = self"
proof -
  have "\<not> isfinite (bc_from_T self v) \<and> \<not> isfinite (bc_from_logT self v)
        \<and> \<not> isfinite (bc_from_BV self v)
        \<and> bc_from_T self NaN = NaN \<and> bc_from_logT self NaN = NaN
        \<and> bc_from_BV self NaN = NaN"
    if "snd (BolometricCorrection_init scipy_interp1d h0 a) = Inr self"
  proof -
    note f = init_Inr(2-4) [OF that]
    have "bc_from_T self v = NaN" "bc_from_logT self v = NaN" "bc_from_BV self v = NaN"
      using f scipy_nonfinite assms by blast+
    moreover have "bc_from_T self NaN = NaN" "bc_from_logT self NaN = NaN"
      "bc_from_BV self NaN = NaN"
      using f scipy_nonfinite [of _ _ _ NaN] by auto
    ultimately show ?thesis
      by simp
  qed
  moreover have "stdout (get_BC_from_T h self (Scalar NaN) verbose) = []
        \<and> stdout (get_BC_from_logT h self (Scalar NaN) verbose) = []
        \<and> stdout (get_BC_from_BV h self (Scalar NaN) verbose) = []"
    by (simp add: get_BC_from_T_def get_BC_from_logT_def get_BC_from_BV_def np_any_less_def
        np_any_greater_def np_greater_def np_less_NaN)
  ultimately show ?thesis
    by (auto simp: returned_simps frame_simps)
qed

theorem non_finite_query_witness:
  "\<not> isfinite NaN
   \<and> returned (get_BC_from_T (fst startup) bc_util (Scalar NaN) False) = Scalar NaN
   \<and> stdout (get_BC_from_T (fst startup) bc_util (Scalar NaN) False) = []
   \<and> self_after (get_BC_from_T (fst startup) bc_util (Scalar NaN) False) = bc_util
   \<and> heap_after (get_BC_from_T (fst startup) bc_util (Scalar NaN) False) = fst startup"
  using non_finite_query [of NaN "fst startup" bc_util False main_heap main_data]
    startup_ok
  by (simp add: startup_def)

text \<open>
  Claim C3 as stated expects the call to fail with \<^verbatim>\<open>InvalidQueryError\<close>. The program has
  no such check: the query for NaN on the embedded table returns NaN and prints nothing.
\<close>

theorem non_finite_query_counterexample:
  "returned (get_BC_from_T (fst startup) bc_util (Scalar NaN) True) = Scalar NaN
   \<and> stdout (get_BC_from_T (fst startup) bc_util (Scalar NaN) True) = []"
  by (simp add: returned_simps bc_util_nonfinite get_BC_from_T_def np_any_less_def
      np_any_greater_def np_greater_def np_less_NaN)

text \<open>
  Claim C5 (construction from too few points), as amended. The constructor makes no
  check of its own on the number of rows. From a table of fewer than four rows it fails
  with the exception that \<^verbatim>\<open>interp1d\<close> raises, and there is no object; the embedded table
  has at least four rows and its construction succeeds.
\<close>

theorem short_table:
  "(length (h ! a) < 4 \<longrightarrow>
      snd (BolometricCorrection_init scipy_interp1d h a) = Inl SciPy_error)
   \<and> 4 \<le> length bolometric_data
   \<and> snd (BolometricCorrection_init scipy_interp1d main_heap main_data) = Inr bc_util"
  using startup_ok
  by (auto simp: startup_def length_table intro!: init_Inl scipy_short)

theorem short_table_witness:
  "length ([take 2 bolometric_data] ! 0) < 4
   \<and> snd (BolometricCorrection_init scipy_interp1d [take 2 bolometric_data] 0)
       = Inl SciPy_error"
  using short_table [of "[take 2 bolometric_data]" 0]
  by simp

text \<open>
  Claim C5 as stated names the exception \<^verbatim>\<open>InsufficientDataError\<close>, which the program does
  not define: on the first three rows of the table the constructor fails with the
  exception of \<^verbatim>\<open>interp1d\<close>.
\<close>

theorem short_table_counterexample:
  "snd (BolometricCorrection_init scipy_interp1d [take 3 bolometric_data] 0) = Inl SciPy_error
   \<and> snd (BolometricCorrection_init scipy_interp1d [take 3 bolometric_data] 0)
       \<noteq> Inl InsufficientDataError"
proof -
  have "snd (BolometricCorrection_init scipy_interp1d [take 3 bolometric_data] 0)
          = Inl SciPy_error"
    by (rule init_Inl) (simp add: scipy_short)
  then show ?thesis by simp
qed

text \<open>
  Claim C6 (batches), as amended. A query on a sequence of values returns a sequence of
  the same length whose element at every position is the value that the query returns
  for that element alone, whatever \<^verbatim>\<open>verbose\<close> is on either side. The batch as a whole is
  classified as an extrapolation exactly when \<^verbatim>\<open>verbose\<close> is set and at least one element
  lies below the minimum or above the maximum of the axis.
\<close>

theorem batch_query:
  "length (elements (returned (get_BC_from_T h self (Array vs) verbose))) = length vs
   \<and> (\<forall>i<length vs.
         Scalar (elements (returned (get_BC_from_T h self (Array vs) verbose)) ! i)
           = returned (get_BC_from_T h self (Scalar (vs ! i)) verbose'))
   \<and> extrapolated (get_BC_from_T h self (Array vs) verbose)
       = (verbose \<and> (\<exists>v\<in>set vs. np_less v (T_min self) \<or> np_less (T_max self) v))
   \<and> length (elements (returned (get_BC_from_logT h self (Array vs) verbose))) = length vs
   \<and> (\<forall>i<length vs.
         Scalar (elements (returned (get_BC_from_logT h self (Array vs) verbose)) ! i)
           = returned (get_BC_from_logT h self (Scalar (vs ! i)) verbose'))
   \<and> extrapolated (get_BC_from_logT h self (Array vs) verbose)
       = (verbose \<and> (\<exists>v\<in>set vs. np_less v (logT_min self) \<or> np_less (logT_max self) v))
   \<and> length (elements (returned (get_BC_from_BV h self (Array vs) verbose))) = length vs
   \<and> (\<forall>i<length vs.
         Scalar (elements (returned (get_BC_from_BV h self (Array vs) verbose)) ! i)
           = returned (get_BC_from_BV h self (Scalar (vs ! i)) verbose'))
   \<and> extrapolated (get_BC_from_BV h self (Array vs) verbose)
       = (verbose \<and> (\<exists>v\<in>set vs. np_less v (BV_min self) \<or> np_less (BV_max self) v))"
  by (simp add: returned_simps extrapolated_T_array extrapolated_logT_array
      extrapolated_BV_array)

theorem batch_query_witness:
  "length (elements (returned
      (get_BC_from_T (fst startup) bc_util (Array [Fin 5780, Fin 100000]) True))) = 2
   \<and> Scalar (elements (returned
        (get_BC_from_T (fst startup) bc_util (Array [Fin 5780, Fin 100000]) True)) ! 1)
       = returned (get_BC_from_T (fst startup) bc_util (Scalar (Fin 100000)) False)
   \<and> extrapolated (get_BC_from_T (fst startup) bc_util (Array [Fin 5780, Fin 100000]) True)
   \<and> \<not> extrapolated (get_BC_from_T (fst startup) bc_util (Array [Fin 5780, Fin 6000]) True)"
  using batch_query [of "fst startup" bc_util "[Fin 5780, Fin 100000]" True False]
    batch_query [of "fst startup" bc_util "[Fin 5780, Fin 6000]" True False]
  by (simp add: bc_util_bounds)

text \<open>
  Claim C6 as stated leaves \<^verbatim>\<open>verbose\<close> out: with \<^verbatim>\<open>verbose=False\<close> a batch that holds
  a temperature above the maximum of the table is not classified as an extrapolation.
\<close>

theorem batch_query_counterexample:
  "np_less (T_max bc_util) (Fin 100000)
   \<and> \<not> extrapolated
        (get_BC_from_T (fst startup) bc_util (Array [Fin 5780, Fin 100000]) False)"
  by (simp add: bc_util_bounds extrapolated_T_array)

text \<open>
  Claim C7 (the value does not depend on the classification). Each query returns the
  same value with \<^verbatim>\<open>verbose=True\<close> and with \<^verbatim>\<open>verbose=False\<close>, and the value does not
  change when the bounds of the axis, and with them the classification of the query, are
  replaced by any others: the interpolant is evaluated in the same way inside and
  outside the range.
\<close>

theorem value_independent_of_verbose_and_range:
  "returned (get_BC_from_T h self x True) = returned (get_BC_from_T h self x False)
   \<and> returned (get_BC_from_logT h self x True) = returned (get_BC_from_logT h self x False)
   \<and> returned (get_BC_from_BV h self x True) = returned (get_BC_from_BV h self x False)
   \<and> returned (get_BC_from_T h (self\<lparr>T_min := lo, T_max := hi\<rparr>) x verbose)
       = returned (get_BC_from_T h self x verbose)
   \<and> returned (get_BC_from_logT h (self\<lparr>logT_min := lo, logT_max := hi\<rparr>) x verbose)
       = returned (get_BC_from_logT h self x verbose)
   \<and> returned (get_BC_from_BV h (self\<lparr>BV_min := lo, BV_max := hi\<rparr>) x verbose)
       = returned (get_BC_from_BV h self x verbose)"
  by (simp add: returned_simps)

text \<open>
  Claim C8 (the order of the table), as amended. The constructor sorts its own copy of
  the table by ascending temperature, whatever table it is given. The frame that
  \<^verbatim>\<open>load_bolometric_data\<close> returns, and that the caller still holds after the construction,
  keeps the order of the embedded text, which is strictly descending in temperature. For
  the embedded table the rows of the constructor's copy are strictly ascending in
  temperature and in log-temperature and strictly descending in colour index, and in the
  table the temperature is a strictly decreasing function of the colour index. The
  column \<^verbatim>\<open>logT\<close> is the decimal logarithm of the column \<^verbatim>\<open>T\<close> up to two units of its
  fourth decimal, in every row.
\<close>

theorem table_order:
  "(snd (BolometricCorrection_init interp1d h a) = Inr self \<longrightarrow>
      sorted (map T (fst (BolometricCorrection_init interp1d h a) ! data self)))
   \<and> fst (load_bolometric_data h) ! snd (load_bolometric_data h) = bolometric_data
   \<and> fst startup ! main_data = bolometric_data
   \<and> sorted_wrt (>) (map T bolometric_data)
   \<and> sorted_wrt (<) (map T (fst startup ! data bc_util))
   \<and> sorted_wrt (<) (map logT (fst startup ! data bc_util))
   \<and> sorted_wrt (>) (map B_V (fst startup ! data bc_util))
   \<and> (\<forall>r\<in>set bolometric_data. \<forall>s\<in>set bolometric_data. B_V r < B_V s \<longrightarrow> T s < T r)
   \<and> (\<forall>r\<in>set bolometric_data. \<bar>logT r - log 10 (T r)\<bar> \<le> 2 / 10000)"
proof -
  have "sorted (map T (fst (BolometricCorrection_init interp1d h a) ! data self))"
    if "snd (BolometricCorrection_init interp1d h a) = Inr self"
    using init_Inr(1) [OF that] by (simp add: init_heap nth_append)
  moreover have "fst (load_bolometric_data h) ! snd (load_bolometric_data h) = bolometric_data"
    by (simp add: load_bolometric_data_def)
  moreover have "sorted_wrt (<) (map T (rev bolometric_data))"
    using sorted_wrt_if_successively [OF table_T_successively]
    by (simp add: sorted_wrt_map sorted_wrt_rev)
  moreover have "sorted_wrt (<) (map logT (rev bolometric_data))"
    using sorted_wrt_if_successively [OF table_logT_successively]
    by (simp add: sorted_wrt_map sorted_wrt_rev)
  moreover have "sorted_wrt (>) (map B_V (rev bolometric_data))"
    using sorted_wrt_if_successively_up [OF table_B_V_successively]
    by (simp add: sorted_wrt_map sorted_wrt_rev)
  moreover have "\<forall>r\<in>set bolometric_data. \<bar>logT r - log 10 (T r)\<bar> \<le> 2 / 10000"
    using table_log10_near by blast
  ultimately show ?thesis
    using table_T_decreasing_in_B_V table_T_descending startup_caller_frame
    by (simp add: startup_frame)
qed

theorem table_order_witness:
  "snd (BolometricCorrection_init scipy_interp1d main_heap main_data) = Inr bc_util
   \<and> sorted (map T (fst (BolometricCorrection_init scipy_interp1d main_heap main_data)
        ! data bc_util))
   \<and> fst (load_bolometric_data main_heap) ! snd (load_bolometric_data main_heap)
       = bolometric_data
   \<and> bolometric_data ! 6 \<in> set bolometric_data
   \<and> bolometric_data ! 0 \<in> set bolometric_data
   \<and> B_V (bolometric_data ! 0) < B_V (bolometric_data ! 6)
   \<and> T (bolometric_data ! 6) < T (bolometric_data ! 0)
   \<and> \<bar>logT (bolometric_data ! 6) - log 10 (T (bolometric_data ! 6))\<bar> \<le> 2 / 10000"
proof -
  have ok: "snd (BolometricCorrection_init scipy_interp1d main_heap main_data) = Inr bc_util"
    using startup_ok by (simp add: startup_def)
  have m: "bolometric_data ! 6 \<in> set bolometric_data" "bolometric_data ! 0 \<in> set bolometric_data"
    by (simp_all add: length_table)
  have lt: "B_V (bolometric_data ! 0) < B_V (bolometric_data ! 6)"
    by (simp add: table_row_6 table_rows_0_1 mk_row_def)
  show ?thesis
    using table_order [of scipy_interp1d main_heap main_data bc_util] ok m lt
    by blast
qed

text \<open>
  Claim C8 as stated takes the column \<^verbatim>\<open>logT\<close> for the decimal logarithm of the column
  \<^verbatim>\<open>T\<close>. The table prints \<^verbatim>\<open>logT\<close> with four decimals, and it is not the logarithm rounded
  to them: in the row with the temperature 3061 the printed 3.4860 exceeds the decimal
  logarithm of 3061 by more than one unit of the fourth decimal.
\<close>

theorem table_order_counterexample:
  "mk_row 1.78 3.4860 (- 4.544) 3061 \<in> set bolometric_data
   \<and> 1 / 10000 < logT (mk_row 1.78 3.4860 (- 4.544) 3061)
       - log 10 (T (mk_row 1.78 3.4860 (- 4.544) 3061))"
  using table_row_213 log10_3061 by (simp add: mk_row_def)

text \<open>
  Claim C10 (construction and queries leave the caller's table alone). The constructor
  changes no frame that was in the store: the caller's table keeps its rows and their
  order. The object refers to a new frame, which holds the sorted rows. No query changes
  the store or the object.
\<close>

theorem construction_and_queries_frame:
  assumes "a < length h"
  shows "fst (BolometricCorrection_init interp1d h a) ! a = h ! a
   \<and> take (length h) (fst (BolometricCorrection_init interp1d h a)) = h
   \<and> (snd (BolometricCorrection_init interp1d h a) = Inr self \<longrightarrow>
        data self \<noteq> a
        \<and> fst (BolometricCorrection_init interp1d h a) ! data self = sort_key T (h ! a)
        \<and> heap_after (get_BC_from_T h' self x verbose) = h'
        \<and> self_after (get_BC_from_T h' self x verbose) = self
        \<and> heap_after (get_BC_from_logT h' self x verbose) = h'
        \<and> self_after (get_BC_from_logT h' self x verbose) = self
        \<and> heap_after (get_BC_from_BV h' self x verbose) = h'
        \<and> self_after (get_BC_from_BV h' self x verbose) = self)"
proof -
  have "fst (BolometricCorrection_init interp1d h a) ! a = h ! a"
    using assms by (simp add: init_heap nth_append)
  moreover have "take (length h) (fst (BolometricCorrection_init interp1d h a)) = h"
    by (simp add: init_heap)
  moreover have "data self \<noteq> a
        \<and> fst (BolometricCorrection_init interp1d h a) ! data self = sort_key T (h ! a)"
    if "snd (BolometricCorrection_init interp1d h a) = Inr self"
    using init_Inr(1) [OF that] assms by (simp add: init_heap nth_append)
  ultimately show ?thesis
    by (simp add: frame_simps)
qed

theorem construction_and_queries_frame_witness:
  "main_data < length main_heap
   \<and> fst startup ! main_data = bolometric_data
   \<and> take (length main_heap) (fst startup) = main_heap
   \<and> snd startup = Inr bc_util
   \<and> data bc_util \<noteq> main_data
   \<and> fst startup ! data bc_util = sort_key T bolometric_data
   \<and> heap_after (get_BC_from_T (fst startup) bc_util (Scalar (Fin 5780)) True) = fst startup
   \<and> self_after (get_BC_from_T (fst startup) bc_util (Scalar (Fin 5780)) True) = bc_util"
proof -
  have a: "main_data < length main_heap"
    by (simp add: main_data_def main_heap_def load_bolometric_data_def)
  show ?thesis
    using construction_and_queries_frame [OF a, of scipy_interp1d bc_util "fst startup"
        "Scalar (Fin 5780)" True] a startup_ok
    by (simp add: startup_def [symmetric] main_frame)
qed

text \<open>
  Claim C2 (exact reproduction and agreement of the axes). For an object built from any
  table that SciPy's routine accepts and for every row of the table, each interpolant
  returns the row's tabulated correction at the row's own value of its axis, and the query
  is not classified as an extrapolation; so the three queries at the three values of one
  row return the same number. The spline is taken in exact arithmetic here, where the
  values agree exactly; the rounding of double precision is not part of the model.
\<close>

theorem exact_reproduction:
  assumes "snd (BolometricCorrection_init scipy_interp1d h a) = Inr self"
    and "r \<in> set (h ! a)"
  shows "returned (get_BC_from_T h' self (Scalar (Fin (T r))) verbose) = Scalar (Fin (BC r))
   \<and> returned (get_BC_from_logT h' self (Scalar (Fin (logT r))) verbose) = Scalar (Fin (BC r))
   \<and> returned (get_BC_from_BV h' self (Scalar (Fin (B_V r))) verbose) = Scalar (Fin (BC r))
   \<and> \<not> extrapolated (get_BC_from_T h' self (Scalar (Fin (T r))) verbose)
   \<and> \<not> extrapolated (get_BC_from_logT h' self (Scalar (Fin (logT r))) verbose)
   \<and> \<not> extrapolated (get_BC_from_BV h' self (Scalar (Fin (B_V r))) verbose)"
proof -
  note init = init_Inr [OF assms(1)]
  have r: "r \<in> set (sort_key T (h ! a))"
    using assms(2) by simp
  have "bc_from_T self (Fin (T r)) = Fin (BC r)"
    by (rule scipy_interp1d_at_point [OF init(2) row_in_columns [OF r]])
  moreover have "bc_from_logT self (Fin (logT r)) = Fin (BC r)"
    by (rule scipy_interp1d_at_point [OF init(3) row_in_columns [OF r]])
  moreover have "bc_from_BV self (Fin (B_V r)) = Fin (BC r)"
    by (rule scipy_interp1d_at_point [OF init(4) row_in_columns [OF r]])
  ultimately show ?thesis
    using column_bounds [OF assms(2), of _ T]
    by (simp add: returned_simps extrapolated_T_scalar extrapolated_logT_scalar
        extrapolated_BV_scalar init(5-10))
qed

theorem exact_reproduction_witness:
  "snd (BolometricCorrection_init scipy_interp1d main_heap main_data) = Inr bc_util
   \<and> bolometric_data ! 6 \<in> set (main_heap ! main_data)
   \<and> returned (get_BC_from_T (fst startup) bc_util (Scalar (Fin 30789)) True)
       = Scalar (Fin (- 2.966))
   \<and> returned (get_BC_from_logT (fst startup) bc_util (Scalar (Fin 4.4884)) True)
       = Scalar (Fin (- 2.966))
   \<and> returned (get_BC_from_BV (fst startup) bc_util (Scalar (Fin (- 0.29))) True)
       = Scalar (Fin (- 2.966))
   \<and> \<not> extrapolated (get_BC_from_T (fst startup) bc_util (Scalar (Fin 30789)) True)"
proof -
  have ok: "snd (BolometricCorrection_init scipy_interp1d main_heap main_data) = Inr bc_util"
    using startup_ok by (simp add: startup_def)
  have m: "bolometric_data ! 6 \<in> set (main_heap ! main_data)"
    by (simp add: main_frame length_table)
  show ?thesis
    using exact_reproduction [OF ok m, of "fst startup" True] ok m
    by (simp add: table_row_6 mk_row_def)
qed

text \<open>
  Claim C9 (the concrete scenario), as amended. With the embedded table the query for
  5780 K returns a correction between -0.083 and -0.077: it lies within 0.0024 of the chord
  between the neighbouring rows, which give -0.085 at 5751 K and -0.079 at 5784 K. The
  query is not classified as an extrapolation. The query for 100000 K returns a finite
  number, and with \<^verbatim>\<open>verbose\<close> set it is classified as an extrapolation.
\<close>

theorem solar_temperature:
  "(\<exists>y. returned (get_BC_from_T h bc_util (Scalar (Fin 5780)) verbose) = Scalar (Fin y)
        \<and> - 0.083 \<le> y \<and> y \<le> - 0.077)
   \<and> \<not> extrapolated (get_BC_from_T h bc_util (Scalar (Fin 5780)) verbose)
   \<and> (\<exists>y. returned (get_BC_from_T h bc_util (Scalar (Fin 100000)) verbose) = Scalar (Fin y))
   \<and> extrapolated (get_BC_from_T h bc_util (Scalar (Fin 100000)) True)"
  using bc_util_5780
  by (simp add: returned_simps bc_util_from_T interpolant_def extrapolated_T_scalar
      bc_util_bounds)

text \<open>
  Claim C9 as stated puts the correction at 5780 K between -0.16 and -0.15. The value the
  query returns is greater than -0.15.
\<close>

theorem solar_temperature_counterexample:
  "returned (get_BC_from_T (fst startup) bc_util (Scalar (Fin 5780)) True)
     = Scalar (bc_from_T bc_util (Fin 5780))
   \<and> np_less (Fin (- 0.15)) (bc_from_T bc_util (Fin 5780))"
  using bc_util_5780
  by (simp add: returned_simps bc_util_from_T interpolant_def)





end
